theory Spec2Isabelle
  imports Main "HOL-Library.Sublist" "HOL-Library.Log_Nat"
begin

section \<open>Stellar Scout: the client-side dataset store of \<open>script.js\<close>\<close>

text \<open>
  The development embeds the data and view logic of \<open>script.js\<close>: the three globals
  \<open>currentPage\<close>, \<open>allExoplanets\<close>, \<open>filteredExoplanets\<close>, the page loader, the
  search box, the two category filters, the planet-type badge and the rendering of a
  prediction result.

  Conventions of the embedding.
  \<^item> A JavaScript string is a \<open>string\<close>, a list of characters; the script compares
    characters for equality only. The built-in \<open>String.prototype.toLowerCase\<close> is not
    part of the script: every definition that calls it takes it as the parameter
    \<open>toLowerCase\<close>, and a theorem that needs a fact about it states that fact as a
    hypothesis.
  \<^item> A finite JavaScript Number is the rational number it denotes, so a comparison of two
    Numbers is the comparison of two rationals. The result of an arithmetic operation is
    rounded to the nearest double (\<open>round_double\<close>) and may overflow to an infinity.
  \<^item> An optional property of a decoded JSON object is an \<open>option\<close>; \<open>None\<close> stands for
    a property that is missing or \<open>null\<close>. A global that holds \<open>undefined\<close> is \<open>None\<close> too.
  \<^item> A truthiness test of the source is written out: a string is falsy when it is missing
    or empty, a Number when it is missing or zero.
  \<^item> An exception is a value: a block of statements yields an \<open>outcome\<close>, which says
    whether the block completed or threw and gives the store as the block left it.
  \<^item> Page numbers are natural numbers (they stay far below \<open>2 ^ 53\<close>, where the
    Number \<open>currentPage + 1\<close> is exact).
\<close>

subsection \<open>Strings\<close>

text \<open>
  \<open>s.includes(t)\<close>: the scan of \<open>String.prototype.includes\<close>, which looks for the first
  position of \<open>s\<close> at which \<open>t\<close> starts.
\<close>

fun starts_with :: "string \<Rightarrow> string \<Rightarrow> bool" where
  "starts_with s [] = True"
| "starts_with [] (d # t) = False"
| "starts_with (c # s) (d # t) = (c = d \<and> starts_with s t)"

fun str_includes :: "string \<Rightarrow> string \<Rightarrow> bool" where
  "str_includes [] t = (t = [])"
| "str_includes (c # s) t = (starts_with (c # s) t \<or> str_includes s t)"

text \<open>Truthiness of an optional string property and of an optional Number property.\<close>

fun truthy_str :: "string option \<Rightarrow> bool" where
  "truthy_str None = False"
| "truthy_str (Some s) = (s \<noteq> [])"

fun truthy_num :: "rat option \<Rightarrow> bool" where
  "truthy_num None = False"
| "truthy_num (Some r) = (r \<noteq> 0)"

subsection \<open>Data model\<close>

text \<open>
  An exoplanet as the backend delivers it. Only the properties read by the search, the
  filters and the type badge are kept; the others are read by the card and modal templates
  alone. The backend always sends \<open>name\<close>, which \<open>searchExoplanets\<close> dereferences
  without a test; the other properties may be missing.
\<close>

record exoplanet =
  name :: string
  hostname :: "string option"
  discoverymethod :: "string option"
  pl_rade :: "rat option"

text \<open>
  The decoded body of \<open>GET /exoplanets?page=..&limit=12\<close>: a JSON object. The script
  never tests the response, so the body need not carry the list: \<open>exoplanets\<close> is \<open>None\<close>
  when the property is missing or \<open>null\<close>, as in the body of an error reply. When the list
  is there, its entries are exoplanets as above.
\<close>

record page_data =
  exoplanets :: "exoplanet list option"
  has_more :: bool

text \<open>
  A fetch either yields a decoded body, or it throws in line 131 (\<open>fetch\<close> rejects) or in
  line 132 (the body is not JSON).
\<close>

datatype fetch_error = NetworkFailure | DecodeFailure

type_synonym page_response = "fetch_error + page_data"

text \<open>The children of the element \<open>exoplanetGrid\<close>.\<close>

datatype grid_child = LoadingSpinner | NoResultsMessage | LoadFailedMessage | PlanetCard exoplanet

text \<open>
  The globals of lines 5 to 7 together with the parts of the document the operations read
  and write: the grid, the visibility of the load-more button and the \<open>value\<close> of the
  three input controls. The script never changes an array in place, it only assigns new
  values to the globals, so a global that holds an array is the list of its elements.
  Either list global can come to hold \<open>undefined\<close> (line 135 and 136 assign
  \<open>data.exoplanets\<close> as it is).
\<close>

record store =
  currentPage :: nat
  allExoplanets :: "exoplanet list option"
  filteredExoplanets :: "exoplanet list option"
  exoplanetGrid :: "grid_child list"
  loadMoreBtn :: bool
  searchInput_value :: string
  discoveryMethodFilter_value :: string
  habitableFilter_value :: string

subsection \<open>Exceptions\<close>

text \<open>
  What a statement of the script can throw: the rejection of the fetch or of the JSON
  decoding, and the \<open>TypeError\<close> of reading a property of \<open>undefined\<close> or of spreading
  it. An outcome carries the store as it is when the block ends, by completing or by
  throwing.
\<close>

datatype exception = FetchError fetch_error | TypeError

datatype outcome = Completed store | Thrown exception store

fun store_of :: "outcome \<Rightarrow> store" where
  "store_of (Completed s) = s"
| "store_of (Thrown e s) = s"

fun threw :: "outcome \<Rightarrow> bool" where
  "threw (Completed s) = False"
| "threw (Thrown e s) = True"

text \<open>Sequencing: the next statement runs only when the one before it completed.\<close>

fun and_then :: "outcome \<Rightarrow> (store \<Rightarrow> outcome) \<Rightarrow> outcome" where
  "and_then (Completed s) f = f s"
| "and_then (Thrown e s) f = Thrown e s"

text \<open>
  The array literal \<open>[...a, ...b]\<close>: it throws a \<open>TypeError\<close>, here \<open>None\<close>, when \<open>a\<close> or
  \<open>b\<close> is \<open>undefined\<close>.
\<close>

fun spread :: "'a list option \<Rightarrow> 'a list option \<Rightarrow> 'a list option" where
  "spread (Some xs) (Some ys) = Some (xs @ ys)"
| "spread None b = None"
| "spread a None = None"

subsection \<open>Rendering the grid\<close>

text \<open>
  \<open>displayExoplanets\<close> reads \<open>exoplanets.length\<close> first (line 163) and
  \<open>appendExoplanets\<close> calls \<open>exoplanets.forEach\<close> first (line 177); on \<open>undefined\<close>
  either throws before it has touched the grid.
\<close>

definition displayExoplanets :: "exoplanet list option \<Rightarrow> store \<Rightarrow> outcome" where
  "displayExoplanets planets s =
     (case planets of
        None \<Rightarrow> Thrown TypeError s
      | Some xs \<Rightarrow>
          if length xs = 0 then Completed (s\<lparr>exoplanetGrid := [NoResultsMessage]\<rparr>)
          else Completed (s\<lparr>exoplanetGrid := map PlanetCard xs\<rparr>))"

definition appendExoplanets :: "exoplanet list option \<Rightarrow> store \<Rightarrow> outcome" where
  "appendExoplanets planets s =
     (case planets of
        None \<Rightarrow> Thrown TypeError s
      | Some xs \<Rightarrow> Completed (s\<lparr>exoplanetGrid := exoplanetGrid s @ map PlanetCard xs\<rparr>))"

definition getPlanetType :: "exoplanet \<Rightarrow> string" where
  "getPlanetType planet =
     (if \<not> truthy_num (pl_rade planet) then ''Unknown Type''
      else let radius = the (pl_rade planet) in
        if radius < 5 / 4 then ''Earth-like''
        else if radius < 2 then ''Super-Earth''
        else if radius < 6 then ''Neptune-like''
        else ''Jupiter-like'')"

subsection \<open>Loading pages\<close>

text \<open>
  \<open>loadExoplanets\<close> is asynchronous. What runs before the \<open>await\<close> (lines 124 to 128) is
  \<open>loadExoplanets_request\<close>. What runs once the fetch has settled is the \<open>try\<close> block
  (lines 131 to 152, \<open>loadExoplanets_try\<close>) and, when that block threw at any point, the
  \<open>catch\<close> block (lines 153 to 156); both read the globals as they are at that moment.
  \<open>loadExoplanets_settled\<close> is the two together, and \<open>loadExoplanets\<close> is the run in which
  nothing else happens between the request and the settling.
\<close>

definition loadExoplanets_request :: "nat \<Rightarrow> store \<Rightarrow> store" where
  "loadExoplanets_request page s =
     (if page = 1 then s\<lparr>exoplanetGrid := [LoadingSpinner]\<rparr> else s)"

text \<open>Lines 144 to 152: the page counter and the visibility of the button.\<close>

definition loadExoplanets_finish :: "nat \<Rightarrow> page_data \<Rightarrow> store \<Rightarrow> outcome" where
  "loadExoplanets_finish page data s =
     Completed (s\<lparr>currentPage := page, loadMoreBtn := has_more data\<rparr>)"

definition loadExoplanets_try :: "nat \<Rightarrow> page_response \<Rightarrow> store \<Rightarrow> outcome" where
  "loadExoplanets_try page response s =
     (case response of
        Inl err \<Rightarrow> Thrown (FetchError err) s
      | Inr data \<Rightarrow>
          if page = 1
          then let s1 = s\<lparr>allExoplanets := exoplanets data\<rparr>;
                   s2 = s1\<lparr>filteredExoplanets := exoplanets data\<rparr>
               in and_then (displayExoplanets (filteredExoplanets s2) s2)
                    (loadExoplanets_finish page data)
          else (case spread (allExoplanets s) (exoplanets data) of
                  None \<Rightarrow> Thrown TypeError s
                | Some all_and_page \<Rightarrow>
                    let s1 = s\<lparr>allExoplanets := Some all_and_page\<rparr>
                    in (case spread (filteredExoplanets s1) (exoplanets data) of
                          None \<Rightarrow> Thrown TypeError s1
                        | Some filtered_and_page \<Rightarrow>
                            let s2 = s1\<lparr>filteredExoplanets := Some filtered_and_page\<rparr>
                            in and_then (appendExoplanets (exoplanets data) s2)
                                 (loadExoplanets_finish page data))))"

definition loadExoplanets_catch :: "store \<Rightarrow> store" where
  "loadExoplanets_catch s = s\<lparr>exoplanetGrid := [LoadFailedMessage]\<rparr>"

definition loadExoplanets_settled :: "nat \<Rightarrow> page_response \<Rightarrow> store \<Rightarrow> store" where
  "loadExoplanets_settled page response s =
     (case loadExoplanets_try page response s of
        Completed s1 \<Rightarrow> s1
      | Thrown e s1 \<Rightarrow> loadExoplanets_catch s1)"

definition loadExoplanets :: "nat \<Rightarrow> page_response \<Rightarrow> store \<Rightarrow> store" where
  "loadExoplanets page response s =
     loadExoplanets_settled page response (loadExoplanets_request page s)"

definition loadMoreExoplanets :: "page_response \<Rightarrow> store \<Rightarrow> store" where
  "loadMoreExoplanets response s = loadExoplanets (currentPage s + 1) response s"

subsection \<open>Search, category filters, reset\<close>

text \<open>
  The three handlers have no \<open>try\<close>: a \<open>TypeError\<close> ends the handler where it is thrown.
  \<open>allExoplanets.filter\<close> throws on \<open>undefined\<close> before anything is assigned.
\<close>

definition matchesSearch :: "(string \<Rightarrow> string) \<Rightarrow> string \<Rightarrow> exoplanet \<Rightarrow> bool" where
  "matchesSearch toLowerCase searchTerm planet =
     (str_includes (toLowerCase (name planet)) searchTerm \<or>
      (truthy_str (hostname planet) \<and>
       str_includes (toLowerCase (the (hostname planet))) searchTerm))"

definition searchExoplanets :: "(string \<Rightarrow> string) \<Rightarrow> store \<Rightarrow> outcome" where
  "searchExoplanets toLowerCase s =
     (let searchTerm = toLowerCase (searchInput_value s)
      in if searchTerm = ''''
         then let s1 = s\<lparr>filteredExoplanets := allExoplanets s\<rparr>
              in displayExoplanets (filteredExoplanets s1) s1
         else (case allExoplanets s of
                 None \<Rightarrow> Thrown TypeError s
               | Some xs \<Rightarrow>
                   let s1 = s\<lparr>filteredExoplanets :=
                                 Some (filter (matchesSearch toLowerCase searchTerm) xs)\<rparr>
                   in displayExoplanets (filteredExoplanets s1) s1))"

definition matchesFilters :: "string \<Rightarrow> string \<Rightarrow> exoplanet \<Rightarrow> bool" where
  "matchesFilters methodFilter habitableFilter planet =
     (let matchesMethod =
            (if methodFilter \<noteq> '''' \<and> truthy_str (discoverymethod planet)
             then str_includes (the (discoverymethod planet)) methodFilter
             else True);
          matchesHabitable =
            (if habitableFilter \<noteq> '''' \<and> truthy_num (pl_rade planet)
             then let radius = the (pl_rade planet) in
               if habitableFilter = ''habitable'' then radius \<ge> 1 / 2 \<and> radius \<le> 3 / 2
               else if habitableFilter = ''hot'' then radius < 1 / 2
               else if habitableFilter = ''cold'' then radius > 3 / 2
               else True
             else True)
      in matchesMethod \<and> matchesHabitable)"

definition applyFilters :: "store \<Rightarrow> outcome" where
  "applyFilters s =
     (case allExoplanets s of
        None \<Rightarrow> Thrown TypeError s
      | Some xs \<Rightarrow>
          let s1 = s\<lparr>filteredExoplanets :=
                        Some (filter (matchesFilters (discoveryMethodFilter_value s)
                                        (habitableFilter_value s)) xs)\<rparr>
          in displayExoplanets (filteredExoplanets s1) s1)"

definition resetFilters :: "store \<Rightarrow> outcome" where
  "resetFilters s =
     (let s1 = s\<lparr>searchInput_value := '''', discoveryMethodFilter_value := '''',
                   habitableFilter_value := ''''\<rparr>;
          s2 = s1\<lparr>filteredExoplanets := allExoplanets s1\<rparr>
      in displayExoplanets (filteredExoplanets s2) s2)"

subsection \<open>Numbers: the double product and \<open>toFixed\<close>\<close>

text \<open>The value of an arithmetic operation: a finite double or an infinity.\<close>

datatype number = Finite rat | PosInfinity | NegInfinity

definition round_half_even :: "rat \<Rightarrow> int" where
  "round_half_even x =
     (let f = \<lfloor>x\<rfloor>; d = x - of_int f
      in if d < 1 / 2 then f else if d > 1 / 2 then f + 1 else if even f then f else f + 1)"

text \<open>The number of binary digits of a positive integer.\<close>

function bit_length :: "int \<Rightarrow> int" where
  "bit_length n = (if n \<le> 0 then 0 else bit_length (n div 2) + 1)"
  by pat_completeness auto
termination
  by (relation "measure nat") auto

declare bit_length.simps [simp del]

text \<open>For \<open>a > 0\<close>, the exponent \<open>e\<close> with \<open>2 powi e \<le> a < 2 powi (e + 1)\<close>.\<close>

definition floor_log2 :: "rat \<Rightarrow> int" where
  "floor_log2 a =
     (let (p, q) = quotient_of a;
          d = bit_length p - bit_length q
      in if 2 powi d \<le> a then d else d - 1)"

text \<open>
  IEEE 754 binary64, round to nearest, ties to even: the magnitude is rounded to a multiple
  of the unit in the last place of its binade (53 significant bits, least exponent
  \<open>-1022\<close>), and a rounded magnitude of \<open>2 ^ 1024\<close> or more overflows.
\<close>

definition round_double :: "rat \<Rightarrow> number" where
  "round_double x =
     (if x = 0 then Finite 0
      else let a = \<bar>x\<bar>;
               e = max (floor_log2 a) (- 1022);
               ulp = 2 powi (e - 52);
               r = of_int (round_half_even (a / ulp)) * ulp
           in if r \<ge> 2 powi 1024 then (if x < 0 then NegInfinity else PosInfinity)
              else Finite (if x < 0 then - r else r))"






subsection \<open>The prediction panel\<close>








subsection \<open>Runs of the page\<close>

text \<open>
  What can happen between two turns of the event loop: a page is requested, a pending fetch
  settles, the user edits one of the three controls, or one of the three view handlers
  runs. A fetch may settle at any later turn, with any page number. After a handler the
  page goes on with the store as the handler left it, whether it completed or threw.
\<close>

datatype event =
    PageRequested nat
  | PageSettled nat page_response
  | SearchInputTyped string
  | MethodFilterChosen string
  | HabitableFilterChosen string
  | SearchRun
  | FiltersApplied
  | FiltersReset

fun step :: "(string \<Rightarrow> string) \<Rightarrow> event \<Rightarrow> store \<Rightarrow> store" where
  "step toLowerCase (PageRequested page) s = loadExoplanets_request page s"
| "step toLowerCase (PageSettled page response) s = loadExoplanets_settled page response s"
| "step toLowerCase (SearchInputTyped v) s = s\<lparr>searchInput_value := v\<rparr>"
| "step toLowerCase (MethodFilterChosen v) s = s\<lparr>discoveryMethodFilter_value := v\<rparr>"
| "step toLowerCase (HabitableFilterChosen v) s = s\<lparr>habitableFilter_value := v\<rparr>"
| "step toLowerCase SearchRun s = store_of (searchExoplanets toLowerCase s)"
| "step toLowerCase FiltersApplied s = store_of (applyFilters s)"
| "step toLowerCase FiltersReset s = store_of (resetFilters s)"

definition run :: "(string \<Rightarrow> string) \<Rightarrow> event list \<Rightarrow> store \<Rightarrow> store" where
  "run toLowerCase evs s = fold (step toLowerCase) evs s"

text \<open>An event whose body, if it has one, carries the list of exoplanets.\<close>

fun carries_list :: "event \<Rightarrow> bool" where
  "carries_list (PageSettled page (Inr data)) = (exoplanets data \<noteq> None)"
| "carries_list e = True"

text \<open>Both list globals hold a list.\<close>

definition both_lists :: "store \<Rightarrow> bool" where
  "both_lists s = (allExoplanets s \<noteq> None \<and> filteredExoplanets s \<noteq> None)"

text \<open>
  The store when the script has been read (lines 5 to 7). The first content of the grid
  and of the button comes from the document and is left open.
\<close>

definition initial_store :: "grid_child list \<Rightarrow> bool \<Rightarrow> store" where
  "initial_store grid0 btn0 =
     \<lparr>currentPage = 1, allExoplanets = Some [], filteredExoplanets = Some [],
      exoplanetGrid = grid0, loadMoreBtn = btn0,
      searchInput_value = [], discoveryMethodFilter_value = [], habitableFilter_value = []\<rparr>"

subsection \<open>What is used of \<open>toLowerCase\<close>\<close>

text \<open>
  On a string of ASCII characters the built-in lower-cases the letters A to Z and leaves
  every other character as it is. Nothing else is assumed of it: outside ASCII it maps
  further letters and is not a character-by-character map.
\<close>

definition lower_char :: "char \<Rightarrow> char" where
  "lower_char c =
     (let n = (of_char c :: nat) in if 65 \<le> n \<and> n \<le> 90 then char_of (n + 32) else c)"

definition ascii_toLowerCase :: "string \<Rightarrow> string" where
  "ascii_toLowerCase s = map lower_char s"

definition is_ascii :: "string \<Rightarrow> bool" where
  "is_ascii s = list_all (\<lambda>c. (of_char c :: nat) < 128) s"

definition lowers_ascii :: "(string \<Rightarrow> string) \<Rightarrow> bool" where
  "lowers_ascii toLowerCase = (\<forall>s. is_ascii s \<longrightarrow> toLowerCase s = ascii_toLowerCase s)"

definition ascii_planet :: "exoplanet \<Rightarrow> bool" where
  "ascii_planet p =
     (is_ascii (name p) \<and> (case hostname p of None \<Rightarrow> True | Some h \<Rightarrow> is_ascii h))"

subsection \<open>Sample data\<close>

definition named_planet :: "string \<Rightarrow> exoplanet" where
  "named_planet n = \<lparr>name = n, hostname = None, discoverymethod = None, pl_rade = None\<rparr>"

definition planet_of_radius :: "rat \<Rightarrow> exoplanet" where
  "planet_of_radius r =
     \<lparr>name = ''Kepler-1b'', hostname = None, discoverymethod = None, pl_rade = Some r\<rparr>"

definition planet_without_radius :: exoplanet where
  "planet_without_radius = named_planet ''Kepler-1b''"

definition two_planets :: "exoplanet list" where
  "two_planets = [named_planet ''Kepler-1b'', named_planet ''TRAPPIST-1e'']"

definition first_page :: page_data where
  "first_page = \<lparr>exoplanets = Some two_planets, has_more = True\<rparr>"

definition second_page :: page_data where
  "second_page = \<lparr>exoplanets = Some [named_planet ''TRAPPIST-1f''], has_more = False\<rparr>"

definition page_of_size :: "nat \<Rightarrow> bool \<Rightarrow> page_data" where
  "page_of_size n b =
     \<lparr>exoplanets = Some (replicate n (named_planet ''Kepler-1b'')), has_more = b\<rparr>"

text \<open>The body of an error reply: JSON, but without the list.\<close>

definition body_without_list :: page_data where
  "body_without_list = \<lparr>exoplanets = None, has_more = False\<rparr>"

definition loaded_store :: store where
  "loaded_store = loadExoplanets 1 (Inr first_page) (initial_store [] False)"

text \<open>
  A session: the first page arrives, the user searches for \<open>kepler\<close>, then loads one more
  page.
\<close>

definition search_then_load_more :: "event list" where
  "search_then_load_more =
     [PageRequested 1, PageSettled 1 (Inr first_page),
      SearchInputTyped ''kepler'', SearchRun,
      PageRequested 2, PageSettled 2 (Inr second_page)]"

definition searched_store :: "(string \<Rightarrow> string) \<Rightarrow> store" where
  "searched_store toLowerCase =
     store_of (searchExoplanets toLowerCase
       ((initial_store [] False)
          \<lparr>allExoplanets := Some two_planets, searchInput_value := ''kepler''\<rparr>))"

definition store_after_load_more :: store where
  "store_after_load_more = run ascii_toLowerCase search_then_load_more (initial_store [] False)"

text \<open>
  A session without a search: the first page holds a planet of radius 1 and one of radius
  3, the user selects \<open>habitable\<close>, then loads one more page, which holds a planet of
  radius 5.
\<close>

definition filtered_store :: store where
  "filtered_store =
     store_of (applyFilters
       ((loadExoplanets 1
           (Inr \<lparr>exoplanets = Some [planet_of_radius 1, planet_of_radius 3], has_more = True\<rparr>)
           (initial_store [] False))
        \<lparr>habitableFilter_value := ''habitable''\<rparr>))"

definition store_after_filter_and_load :: store where
  "store_after_filter_and_load =
     loadMoreExoplanets (Inr \<lparr>exoplanets = Some [planet_of_radius 5], has_more = False\<rparr>)
       filtered_store"

subsection \<open>The specification's wording, for comparison with the code\<close>

text \<open>
  A string contains a term ignoring case when its lower-case form contains the lower-case
  form of the term: this is what case-insensitive means for every string.
\<close>

definition contains_lowercased :: "(string \<Rightarrow> string) \<Rightarrow> string \<Rightarrow> string \<Rightarrow> bool" where
  "contains_lowercased toLowerCase s t = sublist (toLowerCase t) (toLowerCase s)"

definition search_selects :: "(string \<Rightarrow> string) \<Rightarrow> string \<Rightarrow> exoplanet \<Rightarrow> bool" where
  "search_selects toLowerCase term planet =
     (contains_lowercased toLowerCase (name planet) term \<or>
      (case hostname planet of
         None \<Rightarrow> False
       | Some h \<Rightarrow> contains_lowercased toLowerCase h term))"

text \<open>
  For ASCII text this can be said without lower-casing. Two characters are the same letter
  when they are equal or differ only in the case of a letter A to Z, and a string contains
  a term letter by letter when some run of consecutive characters of it spells the term.
\<close>

definition is_upper :: "char \<Rightarrow> bool" where
  "is_upper c = (65 \<le> (of_char c :: nat) \<and> (of_char c :: nat) \<le> 90)"

definition same_letter :: "char \<Rightarrow> char \<Rightarrow> bool" where
  "same_letter a b =
     (a = b \<or> (is_upper a \<and> (of_char b :: nat) = of_char a + 32)
            \<or> (is_upper b \<and> (of_char a :: nat) = of_char b + 32))"

definition contains_ignoring_case :: "string \<Rightarrow> string \<Rightarrow> bool" where
  "contains_ignoring_case s t =
     (\<exists>before run after. s = before @ run @ after \<and> list_all2 same_letter run t)"

definition ascii_search_selects :: "string \<Rightarrow> exoplanet \<Rightarrow> bool" where
  "ascii_search_selects term planet =
     (contains_ignoring_case (name planet) term \<or>
      (case hostname planet of None \<Rightarrow> False | Some h \<Rightarrow> contains_ignoring_case h term))"

text \<open>
  The two tests of the category filter with the reading that a property is missing only
  when it is absent (\<open>claimed_\<close>), and with the reading the code has: an empty
  \<open>discoverymethod\<close> and a radius of zero count as missing too.
\<close>

definition habitable_range :: "string \<Rightarrow> rat \<Rightarrow> bool" where
  "habitable_range habitableFilter radius =
     (if habitableFilter = ''habitable'' then 1 / 2 \<le> radius \<and> radius \<le> 3 / 2
      else if habitableFilter = ''hot'' then radius < 1 / 2
      else if habitableFilter = ''cold'' then radius > 3 / 2
      else True)"

definition claimed_method_test :: "string \<Rightarrow> exoplanet \<Rightarrow> bool" where
  "claimed_method_test methodFilter planet =
     (case discoverymethod planet of
        None \<Rightarrow> True
      | Some m \<Rightarrow> methodFilter = [] \<or> sublist methodFilter m)"

definition claimed_habitable_test :: "string \<Rightarrow> exoplanet \<Rightarrow> bool" where
  "claimed_habitable_test habitableFilter planet =
     (case pl_rade planet of
        None \<Rightarrow> True
      | Some radius \<Rightarrow> habitable_range habitableFilter radius)"

definition method_test :: "string \<Rightarrow> exoplanet \<Rightarrow> bool" where
  "method_test methodFilter planet =
     (case discoverymethod planet of
        None \<Rightarrow> True
      | Some m \<Rightarrow> m = [] \<or> methodFilter = [] \<or> sublist methodFilter m)"

definition habitable_test :: "string \<Rightarrow> exoplanet \<Rightarrow> bool" where
  "habitable_test habitableFilter planet =
     (case pl_rade planet of
        None \<Rightarrow> True
      | Some radius \<Rightarrow> radius = 0 \<or> habitable_range habitableFilter radius)"



section \<open>Loading pages\<close>

lemma displayExoplanets_Some:
  "displayExoplanets (Some xs) s =
     Completed (s\<lparr>exoplanetGrid := (if xs = [] then [NoResultsMessage] else map PlanetCard xs)\<rparr>)"
  by (simp add: displayExoplanets_def)

lemma displayExoplanets_None: "displayExoplanets None s = Thrown TypeError s"
  by (simp add: displayExoplanets_def)

lemma displayExoplanets_fields [simp]:
  "allExoplanets (store_of (displayExoplanets p s)) = allExoplanets s"
  "filteredExoplanets (store_of (displayExoplanets p s)) = filteredExoplanets s"
  "currentPage (store_of (displayExoplanets p s)) = currentPage s"
  "loadMoreBtn (store_of (displayExoplanets p s)) = loadMoreBtn s"
  "searchInput_value (store_of (displayExoplanets p s)) = searchInput_value s"
  "discoveryMethodFilter_value (store_of (displayExoplanets p s)) = discoveryMethodFilter_value s"
  "habitableFilter_value (store_of (displayExoplanets p s)) = habitableFilter_value s"
  by (cases p; simp add: displayExoplanets_def)+

lemma request_fields [simp]:
  "allExoplanets (loadExoplanets_request page s) = allExoplanets s"
  "filteredExoplanets (loadExoplanets_request page s) = filteredExoplanets s"
  "currentPage (loadExoplanets_request page s) = currentPage s"
  by (simp_all add: loadExoplanets_request_def)

lemma try_fetch_failed: "loadExoplanets_try page (Inl e) s = Thrown (FetchError e) s"
  by (simp add: loadExoplanets_try_def)

lemma try_first_page:
  "loadExoplanets_try 1 (Inr d) s =
     (case exoplanets d of
        None \<Rightarrow> Thrown TypeError (s\<lparr>allExoplanets := None, filteredExoplanets := None\<rparr>)
      | Some ds \<Rightarrow>
          Completed
            (s\<lparr>allExoplanets := Some ds, filteredExoplanets := Some ds,
               exoplanetGrid := (if ds = [] then [NoResultsMessage] else map PlanetCard ds),
               currentPage := 1, loadMoreBtn := has_more d\<rparr>))"
  by (simp add: loadExoplanets_try_def loadExoplanets_finish_def displayExoplanets_def
      Let_def split: option.splits)

lemma try_later_page:
  assumes "page \<noteq> 1"
  shows "loadExoplanets_try page (Inr d) s =
     (case (allExoplanets s, exoplanets d) of
        (Some xs, Some ds) \<Rightarrow>
          (case filteredExoplanets s of
             None \<Rightarrow> Thrown TypeError (s\<lparr>allExoplanets := Some (xs @ ds)\<rparr>)
           | Some ys \<Rightarrow>
               Completed
                 (s\<lparr>allExoplanets := Some (xs @ ds), filteredExoplanets := Some (ys @ ds),
                    exoplanetGrid := exoplanetGrid s @ map PlanetCard ds,
                    currentPage := page, loadMoreBtn := has_more d\<rparr>))
      | _ \<Rightarrow> Thrown TypeError s)"
  using assms
  by (cases "allExoplanets s"; cases "exoplanets d"; cases "filteredExoplanets s")
    (simp_all add: loadExoplanets_try_def loadExoplanets_finish_def appendExoplanets_def Let_def)

lemma settled_fetch_failed:
  "loadExoplanets_settled page (Inl e) s = s\<lparr>exoplanetGrid := [LoadFailedMessage]\<rparr>"
  by (simp add: loadExoplanets_settled_def try_fetch_failed loadExoplanets_catch_def)

lemma settled_first_page_lists:
  "allExoplanets (loadExoplanets_settled 1 (Inr d) s) = exoplanets d"
  "filteredExoplanets (loadExoplanets_settled 1 (Inr d) s) = exoplanets d"
  unfolding loadExoplanets_settled_def try_first_page
  by (simp_all add: loadExoplanets_catch_def split: option.splits)

lemma settled_later_page:
  assumes "page \<noteq> 1" and "allExoplanets s = Some xs" and "filteredExoplanets s = Some ys"
    and "exoplanets d = Some ds"
  shows "allExoplanets (loadExoplanets_settled page (Inr d) s) = Some (xs @ ds)"
    and "filteredExoplanets (loadExoplanets_settled page (Inr d) s) = Some (ys @ ds)"
    and "currentPage (loadExoplanets_settled page (Inr d) s) = page"
  using assms by (simp_all add: loadExoplanets_settled_def try_later_page)

lemma settled_later_page_without_list:
  assumes "page \<noteq> 1" and "exoplanets d = None"
  shows "allExoplanets (loadExoplanets_settled page (Inr d) s) = allExoplanets s"
    and "filteredExoplanets (loadExoplanets_settled page (Inr d) s) = filteredExoplanets s"
    and "currentPage (loadExoplanets_settled page (Inr d) s) = currentPage s"
  using assms
  by (simp_all add: loadExoplanets_settled_def try_later_page loadExoplanets_catch_def
      split: option.splits)

lemma catch_assigns_nothing:
  assumes "loadExoplanets_try page response s = Thrown e s1"
  shows "allExoplanets (loadExoplanets_settled page response s) = allExoplanets s1"
    and "filteredExoplanets (loadExoplanets_settled page response s) = filteredExoplanets s1"
    and "currentPage (loadExoplanets_settled page response s) = currentPage s1"
    and "exoplanetGrid (loadExoplanets_settled page response s) = [LoadFailedMessage]"
  using assms by (simp_all add: loadExoplanets_settled_def loadExoplanets_catch_def)

lemma thrown_keeps_currentPage:
  assumes "loadExoplanets_try page response s = Thrown e s1"
  shows "currentPage s1 = currentPage s"
proof (cases response)
  case (Inl err)
  with assms show ?thesis
    by (simp add: try_fetch_failed)
next
  case (Inr d)
  show ?thesis
  proof (cases "page = 1")
    case True
    with assms Inr have "loadExoplanets_try 1 (Inr d) s = Thrown e s1"
      by simp
    then show ?thesis
      unfolding try_first_page by (auto split: option.splits)
  next
    case False
    with assms Inr show ?thesis
      by (auto simp: try_later_page split: option.splits)
  qed
qed

lemma loaded_store_lists:
  "allExoplanets loaded_store = Some two_planets"
  "filteredExoplanets loaded_store = Some two_planets"
  "currentPage loaded_store = 1"
  unfolding loaded_store_def loadExoplanets_def loadExoplanets_settled_def try_first_page
  by (simp_all add: first_page_def)

text \<open>
  C6, as the code has it. A fetch that fails before its body is decoded, because
  \<open>fetch\<close> rejects or because the body is not JSON, leaves \<open>allExoplanets\<close>,
  \<open>filteredExoplanets\<close> and \<open>currentPage\<close> as they were, whatever the page number and the
  store, at whichever turn it settles, and the grid shows the failure message. The
  \<open>catch\<close> block itself assigns to none of the three: wherever the \<open>try\<close> block threw, the
  three are afterwards what they were at the throw; and no load that throws changes
  \<open>currentPage\<close>.
\<close>

theorem failed_fetch_keeps_store:
  "allExoplanets (loadExoplanets page (Inl e) s) = allExoplanets s \<and>
   filteredExoplanets (loadExoplanets page (Inl e) s) = filteredExoplanets s \<and>
   currentPage (loadExoplanets page (Inl e) s) = currentPage s \<and>
   allExoplanets (loadExoplanets_settled page (Inl e) s) = allExoplanets s \<and>
   filteredExoplanets (loadExoplanets_settled page (Inl e) s) = filteredExoplanets s \<and>
   currentPage (loadExoplanets_settled page (Inl e) s) = currentPage s \<and>
   exoplanetGrid (loadExoplanets page (Inl e) s) = [LoadFailedMessage] \<and>
   (loadExoplanets_try page response s = Thrown x s1 \<longrightarrow>
      allExoplanets (loadExoplanets_settled page response s) = allExoplanets s1 \<and>
      filteredExoplanets (loadExoplanets_settled page response s) = filteredExoplanets s1 \<and>
      currentPage (loadExoplanets_settled page response s) = currentPage s)"
proof -
  have before_decoding:
    "allExoplanets (loadExoplanets page (Inl e) s) = allExoplanets s"
    "filteredExoplanets (loadExoplanets page (Inl e) s) = filteredExoplanets s"
    "currentPage (loadExoplanets page (Inl e) s) = currentPage s"
    "allExoplanets (loadExoplanets_settled page (Inl e) s) = allExoplanets s"
    "filteredExoplanets (loadExoplanets_settled page (Inl e) s) = filteredExoplanets s"
    "currentPage (loadExoplanets_settled page (Inl e) s) = currentPage s"
    "exoplanetGrid (loadExoplanets page (Inl e) s) = [LoadFailedMessage]"
    by (simp_all add: loadExoplanets_def settled_fetch_failed)
  have catch_block:
    "loadExoplanets_try page response s = Thrown x s1 \<longrightarrow>
      allExoplanets (loadExoplanets_settled page response s) = allExoplanets s1 \<and>
      filteredExoplanets (loadExoplanets_settled page response s) = filteredExoplanets s1 \<and>
      currentPage (loadExoplanets_settled page response s) = currentPage s"
    using catch_assigns_nothing thrown_keeps_currentPage by metis
  from before_decoding catch_block show ?thesis
    by blast
qed

theorem failed_fetch_keeps_store_witness:
  "loadExoplanets_try 2 (Inr body_without_list) loaded_store = Thrown TypeError loaded_store \<and>
   allExoplanets (loadExoplanets_settled 2 (Inr body_without_list) loaded_store) =
     Some two_planets \<and>
   filteredExoplanets (loadExoplanets_settled 2 (Inr body_without_list) loaded_store) =
     Some two_planets \<and>
   currentPage (loadExoplanets_settled 2 (Inr body_without_list) loaded_store) = 1"
proof -
  have h: "loadExoplanets_try 2 (Inr body_without_list) loaded_store =
             Thrown TypeError loaded_store"
    by (simp add: try_later_page body_without_list_def split: option.splits)
  show ?thesis
    using h failed_fetch_keeps_store
              [of 2 NetworkFailure loaded_store "Inr body_without_list" TypeError loaded_store]
    by (simp add: loaded_store_lists)
qed

text \<open>
  The claim as worded fails for a failure of the other kind the specification names, a
  body that is malformed. When the first load of page 1 is answered by JSON without the
  list, the \<open>try\<close> block throws and the grid shows the failure message, but by then lines
  135 and 136 have replaced both lists, which were empty arrays, by \<open>undefined\<close>. The same
  happens from a store that holds two planets.
\<close>

theorem body_without_list_counterexample:
  "allExoplanets (initial_store [] False) = Some [] \<and>
   filteredExoplanets (initial_store [] False) = Some [] \<and>
   threw (loadExoplanets_try 1 (Inr body_without_list)
            (loadExoplanets_request 1 (initial_store [] False))) \<and>
   exoplanetGrid (loadExoplanets 1 (Inr body_without_list) (initial_store [] False)) =
     [LoadFailedMessage] \<and>
   allExoplanets (loadExoplanets 1 (Inr body_without_list) (initial_store [] False)) = None \<and>
   filteredExoplanets (loadExoplanets 1 (Inr body_without_list) (initial_store [] False)) = None \<and>
   allExoplanets (loadExoplanets 1 (Inr body_without_list) (initial_store [] False)) \<noteq>
     allExoplanets (initial_store [] False) \<and>
   allExoplanets loaded_store = Some two_planets \<and>
   filteredExoplanets loaded_store = Some two_planets \<and>
   threw (loadExoplanets_try 1 (Inr body_without_list) (loadExoplanets_request 1 loaded_store)) \<and>
   allExoplanets (loadExoplanets 1 (Inr body_without_list) loaded_store) = None \<and>
   filteredExoplanets (loadExoplanets 1 (Inr body_without_list) loaded_store) = None"
  unfolding loadExoplanets_def loadExoplanets_settled_def try_first_page
  by (simp add: loaded_store_lists body_without_list_def loadExoplanets_catch_def
      initial_store_def)

lemma loadExoplanets_first_page:
  "loadExoplanets 1 (Inr d) s =
     (case exoplanets d of
        None \<Rightarrow>
          s\<lparr>allExoplanets := None, filteredExoplanets := None,
             exoplanetGrid := [LoadFailedMessage]\<rparr>
      | Some ds \<Rightarrow>
          s\<lparr>allExoplanets := Some ds, filteredExoplanets := Some ds,
             exoplanetGrid := (if ds = [] then [NoResultsMessage] else map PlanetCard ds),
             currentPage := 1, loadMoreBtn := has_more d\<rparr>)"
  unfolding loadExoplanets_def loadExoplanets_settled_def try_first_page
  by (simp add: loadExoplanets_request_def loadExoplanets_catch_def split: option.splits)

lemma loadExoplanets_first_page_lists:
  "allExoplanets (loadExoplanets 1 (Inr d) s) = exoplanets d"
  "filteredExoplanets (loadExoplanets 1 (Inr d) s) = exoplanets d"
  unfolding loadExoplanets_first_page by (simp_all split: option.splits)

lemma loadExoplanets_first_page_currentPage:
  "exoplanets d = Some ds \<Longrightarrow> currentPage (loadExoplanets 1 (Inr d) s) = 1"
  unfolding loadExoplanets_first_page by simp

lemma loadExoplanets_first_page_twice:
  "loadExoplanets 1 (Inr d) (loadExoplanets 1 (Inr d) s) = loadExoplanets 1 (Inr d) s"
  unfolding loadExoplanets_first_page by (simp split: option.splits)

lemma loadExoplanets_later_page:
  assumes "page \<noteq> 1" and "allExoplanets s = Some xs" and "filteredExoplanets s = Some ys"
    and "exoplanets d = Some ds"
  shows "allExoplanets (loadExoplanets page (Inr d) s) = Some (xs @ ds)"
    and "filteredExoplanets (loadExoplanets page (Inr d) s) = Some (ys @ ds)"
    and "currentPage (loadExoplanets page (Inr d) s) = page"
  using assms by (simp_all add: loadExoplanets_def settled_later_page)

lemma later_page_keeps_front:
  assumes "page \<noteq> 1"
  shows "allExoplanets s = Some xs \<Longrightarrow>
           \<exists>zs. allExoplanets (loadExoplanets_settled page (Inr d) s) = Some (xs @ zs)"
    and "filteredExoplanets s = Some ys \<Longrightarrow>
           \<exists>zs. filteredExoplanets (loadExoplanets_settled page (Inr d) s) = Some (ys @ zs)"
  using assms
  by (cases "allExoplanets s"; cases "exoplanets d"; cases "filteredExoplanets s";
      simp add: loadExoplanets_settled_def try_later_page loadExoplanets_catch_def)+

text \<open>
  C7. A load of page 1 whose body is decoded replaces \<open>allExoplanets\<close> and
  \<open>filteredExoplanets\<close> by what the body carries, so loading page 1 twice with the same
  response gives the store that loading it once gives. A successful load of any page above
  1 appends the fetched page to both lists; and whatever the body of such a page holds,
  what the two lists held stays in front.
\<close>

theorem first_page_replaces_later_page_appends:
  "allExoplanets (loadExoplanets 1 (Inr d) s) = exoplanets d \<and>
   filteredExoplanets (loadExoplanets 1 (Inr d) s) = exoplanets d \<and>
   loadExoplanets 1 (Inr d) (loadExoplanets 1 (Inr d) s) = loadExoplanets 1 (Inr d) s \<and>
   (1 < page \<and> allExoplanets s = Some xs \<and> filteredExoplanets s = Some ys \<and>
    exoplanets d = Some ds \<longrightarrow>
      allExoplanets (loadExoplanets page (Inr d) s) = Some (xs @ ds) \<and>
      filteredExoplanets (loadExoplanets page (Inr d) s) = Some (ys @ ds)) \<and>
   (1 < page \<and> allExoplanets s = Some xs \<longrightarrow>
      (\<exists>zs. allExoplanets (loadExoplanets page (Inr d) s) = Some (xs @ zs))) \<and>
   (1 < page \<and> filteredExoplanets s = Some ys \<longrightarrow>
      (\<exists>zs. filteredExoplanets (loadExoplanets page (Inr d) s) = Some (ys @ zs)))"
proof -
  have replaces: "allExoplanets (loadExoplanets 1 (Inr d) s) = exoplanets d"
    "filteredExoplanets (loadExoplanets 1 (Inr d) s) = exoplanets d"
    by (rule loadExoplanets_first_page_lists)+
  have twice: "loadExoplanets 1 (Inr d) (loadExoplanets 1 (Inr d) s) = loadExoplanets 1 (Inr d) s"
    by (rule loadExoplanets_first_page_twice)
  have appends: "1 < page \<and> allExoplanets s = Some xs \<and> filteredExoplanets s = Some ys \<and>
      exoplanets d = Some ds \<longrightarrow>
      allExoplanets (loadExoplanets page (Inr d) s) = Some (xs @ ds) \<and>
      filteredExoplanets (loadExoplanets page (Inr d) s) = Some (ys @ ds)"
    by (simp add: loadExoplanets_later_page)
  have front_all: "1 < page \<and> allExoplanets s = Some xs \<longrightarrow>
      (\<exists>zs. allExoplanets (loadExoplanets page (Inr d) s) = Some (xs @ zs))"
    using later_page_keeps_front(1) [of page "loadExoplanets_request page s" xs d]
    by (simp add: loadExoplanets_def)
  have front_filtered: "1 < page \<and> filteredExoplanets s = Some ys \<longrightarrow>
      (\<exists>zs. filteredExoplanets (loadExoplanets page (Inr d) s) = Some (ys @ zs))"
    using later_page_keeps_front(2) [of page "loadExoplanets_request page s" ys d]
    by (simp add: loadExoplanets_def)
  from replaces twice appends front_all front_filtered show ?thesis
    by blast
qed

theorem first_page_replaces_later_page_appends_witness:
  "(1::nat) < 2 \<and> allExoplanets loaded_store = Some two_planets \<and>
   filteredExoplanets loaded_store = Some two_planets \<and>
   exoplanets second_page = Some [named_planet ''TRAPPIST-1f''] \<and>
   allExoplanets (loadExoplanets 2 (Inr second_page) loaded_store)
     = Some (two_planets @ [named_planet ''TRAPPIST-1f'']) \<and>
   filteredExoplanets (loadExoplanets 2 (Inr second_page) loaded_store)
     = Some (two_planets @ [named_planet ''TRAPPIST-1f''])"
proof -
  have h: "(1::nat) < 2" "allExoplanets loaded_store = Some two_planets"
    "filteredExoplanets loaded_store = Some two_planets"
    "exoplanets second_page = Some [named_planet ''TRAPPIST-1f'']"
    by (simp_all add: loaded_store_lists second_page_def)
  show ?thesis
    using h first_page_replaces_later_page_appends
              [of second_page loaded_store 2 two_planets two_planets
                  "[named_planet ''TRAPPIST-1f'']"]
    by blast
qed

text \<open>
  C5. Loading the next page is additive. When the fetch of page \<open>currentPage + 1\<close>
  succeeds, the fetched exoplanets are appended to \<open>allExoplanets\<close> and, unfiltered, to
  \<open>filteredExoplanets\<close>, what the two lists held stays in front, and \<open>currentPage\<close> grows by
  one. After a first page of 12 and a next page of 5, \<open>allExoplanets\<close> holds 17 entries and
  \<open>currentPage\<close> is 2.
\<close>

theorem load_more_is_additive:
  assumes "1 \<le> currentPage s" and "allExoplanets s = Some xs"
    and "filteredExoplanets s = Some ys" and "exoplanets d = Some ds"
  shows "allExoplanets (loadMoreExoplanets (Inr d) s) = Some (xs @ ds) \<and>
         filteredExoplanets (loadMoreExoplanets (Inr d) s) = Some (ys @ ds) \<and>
         currentPage (loadMoreExoplanets (Inr d) s) = currentPage s + 1 \<and>
         (\<exists>zs. allExoplanets (loadMoreExoplanets (Inr d) s) = Some zs \<and> prefix xs zs) \<and>
         (\<exists>zs. filteredExoplanets (loadMoreExoplanets (Inr d) s) = Some zs \<and> prefix ys zs) \<and>
         (exoplanets d1 = Some ds1 \<and> length ds1 = 12 \<and> length ds = 5 \<longrightarrow>
            (\<exists>zs. allExoplanets (loadMoreExoplanets (Inr d) (loadExoplanets 1 (Inr d1) s)) = Some zs \<and>
                  length zs = 17) \<and>
            currentPage (loadMoreExoplanets (Inr d) (loadExoplanets 1 (Inr d1) s)) = 2)"
proof -
  from assms(1) have next_page: "currentPage s + 1 \<noteq> 1"
    by simp
  have appended:
    "allExoplanets (loadMoreExoplanets (Inr d) s) = Some (xs @ ds)"
    "filteredExoplanets (loadMoreExoplanets (Inr d) s) = Some (ys @ ds)"
    "currentPage (loadMoreExoplanets (Inr d) s) = currentPage s + 1"
    unfolding loadMoreExoplanets_def
    using loadExoplanets_later_page [OF next_page assms(2) assms(3) assms(4)] by simp_all
  have example: "exoplanets d1 = Some ds1 \<and> length ds1 = 12 \<and> length ds = 5 \<longrightarrow>
      (\<exists>zs. allExoplanets (loadMoreExoplanets (Inr d) (loadExoplanets 1 (Inr d1) s)) = Some zs \<and>
            length zs = 17) \<and>
      currentPage (loadMoreExoplanets (Inr d) (loadExoplanets 1 (Inr d1) s)) = 2"
  proof (intro impI, elim conjE)
    assume d1: "exoplanets d1 = Some ds1" and sizes: "length ds1 = 12" "length ds = 5"
    let ?s1 = "loadExoplanets 1 (Inr d1) s"
    have s1: "allExoplanets ?s1 = Some ds1" "filteredExoplanets ?s1 = Some ds1"
      "currentPage ?s1 = 1"
      using d1 loadExoplanets_first_page_lists [of d1 s]
        loadExoplanets_first_page_currentPage [of d1 ds1 s]
      by simp_all
    have page2: "currentPage ?s1 + 1 \<noteq> 1"
      using s1(3) by simp
    have "allExoplanets (loadMoreExoplanets (Inr d) ?s1) = Some (ds1 @ ds)"
      "currentPage (loadMoreExoplanets (Inr d) ?s1) = currentPage ?s1 + 1"
      unfolding loadMoreExoplanets_def
      using loadExoplanets_later_page [OF page2 s1(1) s1(2) assms(4)] by simp_all
    with sizes s1(3)
    show "(\<exists>zs. allExoplanets (loadMoreExoplanets (Inr d) ?s1) = Some zs \<and> length zs = 17) \<and>
          currentPage (loadMoreExoplanets (Inr d) ?s1) = 2"
      by simp
  qed
  from appended example show ?thesis
    by simp
qed

theorem load_more_is_additive_witness:
  "1 \<le> currentPage loaded_store \<and> allExoplanets loaded_store = Some two_planets \<and>
   filteredExoplanets loaded_store = Some two_planets \<and>
   exoplanets (page_of_size 5 False) = Some (replicate 5 (named_planet ''Kepler-1b'')) \<and>
   exoplanets (page_of_size 12 True) = Some (replicate 12 (named_planet ''Kepler-1b'')) \<and>
   currentPage (loadMoreExoplanets (Inr (page_of_size 5 False)) loaded_store) = 2 \<and>
   (\<exists>zs. allExoplanets (loadMoreExoplanets (Inr (page_of_size 5 False))
             (loadExoplanets 1 (Inr (page_of_size 12 True)) loaded_store)) = Some zs \<and>
         length zs = 17) \<and>
   currentPage (loadMoreExoplanets (Inr (page_of_size 5 False))
             (loadExoplanets 1 (Inr (page_of_size 12 True)) loaded_store)) = 2"
proof -
  have h: "1 \<le> currentPage loaded_store" "allExoplanets loaded_store = Some two_planets"
    "filteredExoplanets loaded_store = Some two_planets"
    "exoplanets (page_of_size 5 False) = Some (replicate 5 (named_planet ''Kepler-1b''))"
    by (simp_all add: loaded_store_lists page_of_size_def)
  have sizes: "exoplanets (page_of_size 12 True) = Some (replicate 12 (named_planet ''Kepler-1b''))"
    "length (replicate 12 (named_planet ''Kepler-1b'')) = 12"
    "length (replicate 5 (named_planet ''Kepler-1b'')) = 5"
    by (simp_all add: page_of_size_def)
  show ?thesis
    using h sizes
      load_more_is_additive [OF h, of "page_of_size 12 True"
          "replicate 12 (named_planet ''Kepler-1b'')"]
    by (simp add: loaded_store_lists)
qed

section \<open>Reset\<close>

text \<open>
  C9. \<open>resetFilters\<close> empties the search box and both filter selections and makes
  \<open>filteredExoplanets\<close> the value of \<open>allExoplanets\<close> itself, from every store; the global
  \<open>allExoplanets\<close> and the page counter are not touched. The grid then shows that list; the
  handler throws instead of redrawing exactly when \<open>allExoplanets\<close> holds no list.
\<close>

theorem resetFilters_restores_all:
  "searchInput_value (store_of (resetFilters s)) = [] \<and>
   discoveryMethodFilter_value (store_of (resetFilters s)) = [] \<and>
   habitableFilter_value (store_of (resetFilters s)) = [] \<and>
   filteredExoplanets (store_of (resetFilters s)) = allExoplanets s \<and>
   allExoplanets (store_of (resetFilters s)) = allExoplanets s \<and>
   currentPage (store_of (resetFilters s)) = currentPage s \<and>
   exoplanetGrid (store_of (resetFilters s)) =
     (case allExoplanets s of
        None \<Rightarrow> exoplanetGrid s
      | Some xs \<Rightarrow> if xs = [] then [NoResultsMessage] else map PlanetCard xs) \<and>
   threw (resetFilters s) = (allExoplanets s = None)"
  by (cases "allExoplanets s") (simp_all add: resetFilters_def Let_def displayExoplanets_def)

theorem resetFilters_restores_all_witness:
  "filteredExoplanets (store_of (resetFilters loaded_store)) = Some two_planets \<and>
   \<not> threw (resetFilters loaded_store)"
  using resetFilters_restores_all [of loaded_store]
  by (simp add: loaded_store_lists)

section \<open>The planet type\<close>

lemma getPlanetType_missing:
  "pl_rade p = None \<or> pl_rade p = Some 0 \<Longrightarrow> getPlanetType p = ''Unknown Type''"
  by (auto simp: getPlanetType_def)

lemma getPlanetType_radius:
  assumes "pl_rade p = Some r" and "r \<noteq> 0"
  shows "getPlanetType p =
           (if r < 5 / 4 then ''Earth-like'' else if r < 2 then ''Super-Earth''
            else if r < 6 then ''Neptune-like'' else ''Jupiter-like'')"
  using assms by (simp add: getPlanetType_def)

text \<open>
  C2, as the code has it. For an exoplanet whose radius is present and not zero: a radius
  below 1.25 gives \<open>Earth-like\<close>, from 1.25 to below 2.0 \<open>Super-Earth\<close>, from 2.0 to below
  6.0 \<open>Neptune-like\<close>, and 6.0 or more \<open>Jupiter-like\<close>, so each boundary belongs to the
  class above it. A radius that is absent, or exactly zero, gives \<open>Unknown Type\<close>.
\<close>

theorem planet_type_of_radius:
  "(pl_rade p = None \<or> pl_rade p = Some 0 \<longrightarrow> getPlanetType p = ''Unknown Type'') \<and>
   (pl_rade p = Some r \<and> r \<noteq> 0 \<longrightarrow>
      (r < 5 / 4 \<longrightarrow> getPlanetType p = ''Earth-like'') \<and>
      (5 / 4 \<le> r \<and> r < 2 \<longrightarrow> getPlanetType p = ''Super-Earth'') \<and>
      (2 \<le> r \<and> r < 6 \<longrightarrow> getPlanetType p = ''Neptune-like'') \<and>
      (6 \<le> r \<longrightarrow> getPlanetType p = ''Jupiter-like'')) \<and>
   getPlanetType (planet_of_radius 1) = ''Earth-like'' \<and>
   getPlanetType (planet_of_radius (5 / 4)) = ''Super-Earth'' \<and>
   getPlanetType (planet_of_radius (19999 / 10000)) = ''Super-Earth'' \<and>
   getPlanetType (planet_of_radius 2) = ''Neptune-like'' \<and>
   getPlanetType (planet_of_radius (59999 / 10000)) = ''Neptune-like'' \<and>
   getPlanetType (planet_of_radius 6) = ''Jupiter-like'' \<and>
   getPlanetType planet_without_radius = ''Unknown Type''"
proof -
  have missing: "pl_rade p = None \<or> pl_rade p = Some 0 \<longrightarrow> getPlanetType p = ''Unknown Type''"
    using getPlanetType_missing by blast
  have classes: "pl_rade p = Some r \<and> r \<noteq> 0 \<longrightarrow>
      (r < 5 / 4 \<longrightarrow> getPlanetType p = ''Earth-like'') \<and>
      (5 / 4 \<le> r \<and> r < 2 \<longrightarrow> getPlanetType p = ''Super-Earth'') \<and>
      (2 \<le> r \<and> r < 6 \<longrightarrow> getPlanetType p = ''Neptune-like'') \<and>
      (6 \<le> r \<longrightarrow> getPlanetType p = ''Jupiter-like'')"
    by (auto simp: getPlanetType_radius)
  have samples:
    "getPlanetType (planet_of_radius 1) = ''Earth-like''"
    "getPlanetType (planet_of_radius (5 / 4)) = ''Super-Earth''"
    "getPlanetType (planet_of_radius (19999 / 10000)) = ''Super-Earth''"
    "getPlanetType (planet_of_radius 2) = ''Neptune-like''"
    "getPlanetType (planet_of_radius (59999 / 10000)) = ''Neptune-like''"
    "getPlanetType (planet_of_radius 6) = ''Jupiter-like''"
    "getPlanetType planet_without_radius = ''Unknown Type''"
    by (simp_all add: getPlanetType_def planet_of_radius_def planet_without_radius_def
        named_planet_def)
  from missing classes samples show ?thesis
    by blast
qed

theorem planet_type_of_radius_witness:
  "pl_rade (planet_of_radius (5 / 4)) = Some (5 / 4) \<and> (5 / 4 :: rat) \<noteq> 0 \<and>
   (5 / 4 :: rat) \<le> 5 / 4 \<and> (5 / 4 :: rat) < 2 \<and>
   getPlanetType (planet_of_radius (5 / 4)) = ''Super-Earth''"
  using planet_type_of_radius [of "planet_of_radius (5 / 4)" "5 / 4"]
  by (simp add: planet_of_radius_def)

text \<open>
  The claim as worded fails at a radius of exactly zero: zero is below 1.25, yet the badge
  is not \<open>Earth-like\<close>.
\<close>

theorem planet_type_zero_radius_counterexample:
  "pl_rade (planet_of_radius 0) = Some 0 \<and> (0 :: rat) < 5 / 4 \<and>
   getPlanetType (planet_of_radius 0) \<noteq> ''Earth-like''"
  by (simp add: getPlanetType_def planet_of_radius_def)

section \<open>The category filters\<close>

lemma starts_with_prefix: "starts_with s t \<longleftrightarrow> prefix t s"
  by (induction s t rule: starts_with.induct) auto

lemma str_includes_sublist: "str_includes s t \<longleftrightarrow> sublist t s"
  by (induction s) (auto simp: starts_with_prefix sublist_Cons_right)

lemma matchesFilters_tests:
  "matchesFilters methodFilter habitableFilter p =
     (method_test methodFilter p \<and> habitable_test habitableFilter p)"
  by (cases "discoverymethod p"; cases "pl_rade p")
    (auto simp: matchesFilters_def method_test_def habitable_test_def habitable_range_def
      str_includes_sublist)

lemma matchesFilters_tests_fun:
  "matchesFilters methodFilter habitableFilter =
     (\<lambda>p. method_test methodFilter p \<and> habitable_test habitableFilter p)"
  by (rule ext) (rule matchesFilters_tests)

lemma applyFilters_filtered:
  assumes "allExoplanets s = Some xs"
  shows "filteredExoplanets (store_of (applyFilters s)) =
           Some (filter (matchesFilters (discoveryMethodFilter_value s) (habitableFilter_value s)) xs)"
    and "allExoplanets (store_of (applyFilters s)) = Some xs"
    and "\<not> threw (applyFilters s)"
  using assms by (simp_all add: applyFilters_def displayExoplanets_def Let_def)

lemma applyFilters_undefined:
  assumes "allExoplanets s = None"
  shows "applyFilters s = Thrown TypeError s"
  using assms by (simp add: applyFilters_def)

text \<open>
  C3, as the code has it. \<open>applyFilters\<close> keeps, in their order, exactly the exoplanets
  that pass both tests. The method test passes when no method is selected, when the
  exoplanet's \<open>discoverymethod\<close> is missing or empty, or when the selected value occurs in
  it as a substring, case-sensitively. The habitability test passes when the exoplanet's
  radius is missing or zero; otherwise \<open>habitable\<close> asks for a radius from 0.5 to 1.5,
  bounds included, \<open>hot\<close> for a radius below 0.5, \<open>cold\<close> for a radius above 1.5, and any
  other selection asks nothing. So 0.5 and 1.5 pass \<open>habitable\<close>, 0.4999 passes \<open>hot\<close> and
  not \<open>habitable\<close>, and 1.5001 passes \<open>cold\<close>.
\<close>

theorem applyFilters_keeps_both_tests:
  "(allExoplanets s = Some xs \<longrightarrow>
      filteredExoplanets (store_of (applyFilters s)) =
        Some (filter (\<lambda>p. method_test (discoveryMethodFilter_value s) p \<and>
                           habitable_test (habitableFilter_value s) p) xs) \<and>
      \<not> threw (applyFilters s)) \<and>
   matchesFilters methodFilter habitableFilter p =
     (method_test methodFilter p \<and> habitable_test habitableFilter p) \<and>
   matchesFilters [] ''habitable'' (planet_of_radius (1 / 2)) \<and>
   matchesFilters [] ''habitable'' (planet_of_radius (3 / 2)) \<and>
   \<not> matchesFilters [] ''habitable'' (planet_of_radius (4999 / 10000)) \<and>
   matchesFilters [] ''hot'' (planet_of_radius (4999 / 10000)) \<and>
   matchesFilters [] ''cold'' (planet_of_radius (15001 / 10000)) \<and>
   \<not> matchesFilters [] ''habitable'' (planet_of_radius (15001 / 10000))"
proof -
  have kept: "allExoplanets s = Some xs \<longrightarrow>
      filteredExoplanets (store_of (applyFilters s)) =
        Some (filter (\<lambda>p. method_test (discoveryMethodFilter_value s) p \<and>
                           habitable_test (habitableFilter_value s) p) xs) \<and>
      \<not> threw (applyFilters s)"
    by (simp add: applyFilters_filtered matchesFilters_tests_fun)
  have samples:
    "matchesFilters [] ''habitable'' (planet_of_radius (1 / 2))"
    "matchesFilters [] ''habitable'' (planet_of_radius (3 / 2))"
    "\<not> matchesFilters [] ''habitable'' (planet_of_radius (4999 / 10000))"
    "matchesFilters [] ''hot'' (planet_of_radius (4999 / 10000))"
    "matchesFilters [] ''cold'' (planet_of_radius (15001 / 10000))"
    "\<not> matchesFilters [] ''habitable'' (planet_of_radius (15001 / 10000))"
    by (simp_all add: matchesFilters_def planet_of_radius_def)
  from kept matchesFilters_tests samples show ?thesis
    by blast
qed

theorem applyFilters_keeps_both_tests_witness:
  "allExoplanets ((initial_store [] False)
        \<lparr>allExoplanets := Some [planet_of_radius 1, planet_of_radius 3, planet_of_radius 0],
         habitableFilter_value := ''habitable''\<rparr>)
     = Some [planet_of_radius 1, planet_of_radius 3, planet_of_radius 0] \<and>
   filteredExoplanets
     (store_of (applyFilters ((initial_store [] False)
        \<lparr>allExoplanets := Some [planet_of_radius 1, planet_of_radius 3, planet_of_radius 0],
         habitableFilter_value := ''habitable''\<rparr>)))
   = Some [planet_of_radius 1, planet_of_radius 0]"
  using applyFilters_keeps_both_tests
          [of "(initial_store [] False)
                 \<lparr>allExoplanets := Some [planet_of_radius 1, planet_of_radius 3, planet_of_radius 0],
                  habitableFilter_value := ''habitable''\<rparr>"
              "[planet_of_radius 1, planet_of_radius 3, planet_of_radius 0]"]
  by (simp add: initial_store_def method_test_def habitable_test_def habitable_range_def
      planet_of_radius_def)

text \<open>
  The claim as worded fails for a radius of exactly zero: the exoplanet has the property
  \<open>pl_rade\<close>, zero is not in the range from 0.5 to 1.5, and yet the selection \<open>habitable\<close>
  keeps it.
\<close>

theorem applyFilters_zero_radius_counterexample:
  "pl_rade (planet_of_radius 0) = Some 0 \<and>
   \<not> claimed_habitable_test ''habitable'' (planet_of_radius 0) \<and>
   matchesFilters [] ''habitable'' (planet_of_radius 0) \<noteq>
     (claimed_method_test [] (planet_of_radius 0) \<and>
      claimed_habitable_test ''habitable'' (planet_of_radius 0)) \<and>
   filteredExoplanets
     (store_of (applyFilters ((initial_store [] False)
        \<lparr>allExoplanets := Some [planet_of_radius 0], habitableFilter_value := ''habitable''\<rparr>)))
   = Some [planet_of_radius 0]"
  by (simp add: applyFilters_def displayExoplanets_def Let_def matchesFilters_def
      claimed_habitable_test_def claimed_method_test_def habitable_range_def
      planet_of_radius_def initial_store_def)

text \<open>
  C10. An exoplanet whose \<open>pl_rade\<close> is exactly zero is handled as one without a radius:
  its badge is \<open>Unknown Type\<close>, not \<open>Earth-like\<close>, and the habitability selection has no
  effect on it, so each of \<open>habitable\<close>, \<open>hot\<close> and \<open>cold\<close> lets it pass.
\<close>

theorem zero_radius_counts_as_missing:
  assumes "pl_rade p = Some 0"
  shows "getPlanetType p = ''Unknown Type'' \<and>
         getPlanetType p \<noteq> ''Earth-like'' \<and>
         matchesFilters methodFilter habitableFilter p = matchesFilters methodFilter [] p \<and>
         matchesFilters [] ''habitable'' p \<and>
         matchesFilters [] ''hot'' p \<and>
         matchesFilters [] ''cold'' p"
  using assms by (simp add: getPlanetType_def matchesFilters_def)

theorem zero_radius_counts_as_missing_witness:
  "pl_rade (planet_of_radius 0) = Some 0 \<and>
   getPlanetType (planet_of_radius 0) = ''Unknown Type'' \<and>
   matchesFilters [] ''habitable'' (planet_of_radius 0) \<and>
   matchesFilters [] ''hot'' (planet_of_radius 0) \<and>
   matchesFilters [] ''cold'' (planet_of_radius 0)"
proof -
  have h: "pl_rade (planet_of_radius 0) = Some 0"
    by (simp add: planet_of_radius_def)
  show ?thesis
    using h zero_radius_counts_as_missing [OF h] by simp
qed

section \<open>Search\<close>

subsection \<open>Lower-casing ASCII text\<close>

lemma lower_char_upper: "is_upper c \<Longrightarrow> lower_char c = char_of (of_char c + 32 :: nat)"
  by (simp add: lower_char_def is_upper_def Let_def)

lemma lower_char_other: "\<not> is_upper c \<Longrightarrow> lower_char c = c"
  by (auto simp add: lower_char_def is_upper_def Let_def)

lemma of_char_lower_char:
  "(of_char (lower_char c) :: nat) = (if is_upper c then of_char c + 32 else of_char c)"
  by (cases "is_upper c") (simp_all add: lower_char_upper lower_char_other is_upper_def)

lemma lower_char_eq_iff: "lower_char a = lower_char b \<longleftrightarrow> same_letter a b"
proof -
  have "lower_char a = lower_char b \<longleftrightarrow> (of_char (lower_char a) :: nat) = of_char (lower_char b)"
    by simp
  also have "\<dots> \<longleftrightarrow> same_letter a b"
    unfolding of_char_lower_char same_letter_def
    by (auto simp: is_upper_def)
  finally show ?thesis .
qed

lemma ascii_toLowerCase_eq_iff:
  "ascii_toLowerCase u = ascii_toLowerCase t \<longleftrightarrow> list_all2 same_letter u t"
proof -
  have "map lower_char u = map lower_char t \<longleftrightarrow>
        list_all2 (\<lambda>a b. lower_char a = lower_char b) u t"
    by (simp add: list_all2_eq [of "map lower_char u"] list.rel_map)
  then show ?thesis
    by (simp add: ascii_toLowerCase_def lower_char_eq_iff)
qed

lemma map_eq_middle:
  assumes "map f s = ps @ m @ ss"
  shows "\<exists>before u after. s = before @ u @ after \<and> map f u = m"
proof -
  from assms obtain us vs where s1: "s = us @ vs" and vs: "map f vs = m @ ss"
    by (metis map_eq_append_conv)
  from vs obtain u after where s2: "vs = u @ after" and u: "map f u = m"
    by (metis map_eq_append_conv)
  from s1 s2 u show ?thesis
    by blast
qed

lemma ascii_contains:
  "sublist (ascii_toLowerCase t) (ascii_toLowerCase s) \<longleftrightarrow> contains_ignoring_case s t"
proof
  assume "sublist (ascii_toLowerCase t) (ascii_toLowerCase s)"
  then obtain ps ss where "map lower_char s = ps @ map lower_char t @ ss"
    by (auto simp: sublist_def ascii_toLowerCase_def)
  then obtain before u after where s: "s = before @ u @ after"
    and u: "map lower_char u = map lower_char t"
    using map_eq_middle [of lower_char s ps "map lower_char t" ss] by blast
  from u have "list_all2 same_letter u t"
    by (simp add: ascii_toLowerCase_eq_iff [symmetric] ascii_toLowerCase_def)
  with s show "contains_ignoring_case s t"
    unfolding contains_ignoring_case_def by blast
next
  assume "contains_ignoring_case s t"
  then obtain before u after where s: "s = before @ u @ after"
    and u: "ascii_toLowerCase u = ascii_toLowerCase t"
    unfolding contains_ignoring_case_def ascii_toLowerCase_eq_iff by blast
  have "ascii_toLowerCase s =
          ascii_toLowerCase before @ ascii_toLowerCase t @ ascii_toLowerCase after"
    using u by (simp add: s ascii_toLowerCase_def)
  then show "sublist (ascii_toLowerCase t) (ascii_toLowerCase s)"
    unfolding sublist_def by blast
qed

lemma lowers_ascii_self: "lowers_ascii ascii_toLowerCase"
  by (simp add: lowers_ascii_def)

lemma lowers_ascii_empty: "lowers_ascii toLowerCase \<Longrightarrow> toLowerCase [] = []"
  by (simp add: lowers_ascii_def is_ascii_def ascii_toLowerCase_def)

lemma lowers_ascii_contains:
  assumes "lowers_ascii toLowerCase" and "is_ascii s" and "is_ascii t"
  shows "contains_lowercased toLowerCase s t \<longleftrightarrow> contains_ignoring_case s t"
  using assms by (simp add: contains_lowercased_def lowers_ascii_def ascii_contains)

lemma lowers_ascii_selects:
  assumes "lowers_ascii toLowerCase" and "ascii_planet p" and "is_ascii t"
  shows "search_selects toLowerCase t p \<longleftrightarrow> ascii_search_selects t p"
  using assms
  by (cases "hostname p")
    (simp_all add: search_selects_def ascii_search_selects_def ascii_planet_def
      lowers_ascii_contains)

lemma ascii_samples:
  "is_ascii ''Kepler-1b''" "is_ascii ''TRAPPIST-1e''" "is_ascii ''TRAPPIST-1f''"
  "is_ascii ''kepler''"
  "ascii_toLowerCase ''Kepler-1b'' = ''kepler-1b''"
  "ascii_toLowerCase ''TRAPPIST-1e'' = ''trappist-1e''"
  "ascii_toLowerCase ''TRAPPIST-1f'' = ''trappist-1f''"
  "ascii_toLowerCase ''kepler'' = ''kepler''"
  by code_simp+

lemma lower_samples:
  assumes "lowers_ascii toLowerCase"
  shows "toLowerCase ''Kepler-1b'' = ''kepler-1b''"
    and "toLowerCase ''TRAPPIST-1e'' = ''trappist-1e''"
    and "toLowerCase ''TRAPPIST-1f'' = ''trappist-1f''"
    and "toLowerCase ''kepler'' = ''kepler''"
  using assms ascii_samples unfolding lowers_ascii_def by metis+

subsection \<open>The search handler\<close>

lemma contains_lowercased_empty:
  "toLowerCase t = [] \<Longrightarrow> contains_lowercased toLowerCase s t"
  by (simp add: contains_lowercased_def)

lemma matchesSearch_selects:
  assumes "toLowerCase [] = []"
  shows "matchesSearch toLowerCase (toLowerCase term) p \<longleftrightarrow> search_selects toLowerCase term p"
proof (cases "hostname p")
  case None
  then show ?thesis
    by (simp add: matchesSearch_def search_selects_def contains_lowercased_def
        str_includes_sublist)
next
  case (Some h)
  show ?thesis
  proof (cases "h = []")
    case True
    with Some assms show ?thesis
      by (auto simp: matchesSearch_def search_selects_def contains_lowercased_def
          str_includes_sublist)
  next
    case False
    with Some show ?thesis
      by (simp add: matchesSearch_def search_selects_def contains_lowercased_def
          str_includes_sublist)
  qed
qed

lemma searchExoplanets_defined:
  assumes "allExoplanets s = Some xs"
  shows "filteredExoplanets (store_of (searchExoplanets toLowerCase s)) =
           Some (filter (matchesSearch toLowerCase (toLowerCase (searchInput_value s))) xs)"
    and "allExoplanets (store_of (searchExoplanets toLowerCase s)) = Some xs"
    and "\<not> threw (searchExoplanets toLowerCase s)"
proof -
  have always: "matchesSearch toLowerCase [] = (\<lambda>p. True)"
    by (rule ext) (simp add: matchesSearch_def str_includes_sublist)
  show "filteredExoplanets (store_of (searchExoplanets toLowerCase s)) =
           Some (filter (matchesSearch toLowerCase (toLowerCase (searchInput_value s))) xs)"
    using assms always
    by (cases "toLowerCase (searchInput_value s) = []")
      (simp_all add: searchExoplanets_def Let_def displayExoplanets_def)
  show "allExoplanets (store_of (searchExoplanets toLowerCase s)) = Some xs"
    using assms by (simp add: searchExoplanets_def Let_def displayExoplanets_def)
  show "\<not> threw (searchExoplanets toLowerCase s)"
    using assms by (simp add: searchExoplanets_def Let_def displayExoplanets_def)
qed

lemma searchExoplanets_selected:
  assumes "toLowerCase [] = []" and "allExoplanets s = Some xs"
  shows "filteredExoplanets (store_of (searchExoplanets toLowerCase s)) =
           Some (filter (search_selects toLowerCase (searchInput_value s)) xs)"
proof -
  have "matchesSearch toLowerCase (toLowerCase (searchInput_value s)) =
          search_selects toLowerCase (searchInput_value s)"
    by (rule ext) (rule matchesSearch_selects [of toLowerCase, OF assms(1)])
  with searchExoplanets_defined(1) [OF assms(2)] show ?thesis
    by simp
qed

lemma searched_store_filtered:
  assumes "lowers_ascii toLowerCase"
  shows "filteredExoplanets (searched_store toLowerCase) = Some [named_planet ''Kepler-1b'']"
  using lower_samples [OF assms]
  by (simp add: searched_store_def searchExoplanets_def initial_store_def two_planets_def
      named_planet_def matchesSearch_def Let_def displayExoplanets_def)

text \<open>
  C4. For every dataset and every search term, \<open>searchExoplanets\<close> makes
  \<open>filteredExoplanets\<close> the exoplanets of \<open>allExoplanets\<close> whose name or host name contains
  the term ignoring case, in their original order and leaving \<open>allExoplanets\<close> as it is;
  with an empty term that is the whole dataset. Ignoring case means that the lower-case
  forms are compared, so a term with the same lower-case form selects the same planets;
  for ASCII text it means that some run of characters of the name spells the term up to
  the case of its letters. For the two planets \<open>Kepler-1b\<close> and \<open>TRAPPIST-1e\<close>, the term
  \<open>kepler\<close> selects exactly \<open>Kepler-1b\<close>. Of the built-in \<open>toLowerCase\<close> only its action on
  ASCII strings is used.
\<close>

theorem searchExoplanets_selects_matching:
  assumes "lowers_ascii toLowerCase" and "allExoplanets s = Some xs"
  shows "filteredExoplanets (store_of (searchExoplanets toLowerCase s)) =
           Some (filter (search_selects toLowerCase (searchInput_value s)) xs) \<and>
         subseq (filter (search_selects toLowerCase (searchInput_value s)) xs) xs \<and>
         (searchInput_value s = [] \<longrightarrow>
            filteredExoplanets (store_of (searchExoplanets toLowerCase s)) = Some xs) \<and>
         allExoplanets (store_of (searchExoplanets toLowerCase s)) = Some xs \<and>
         \<not> threw (searchExoplanets toLowerCase s) \<and>
         (toLowerCase term = toLowerCase (searchInput_value s) \<longrightarrow>
            filteredExoplanets
              (store_of (searchExoplanets toLowerCase (s\<lparr>searchInput_value := term\<rparr>))) =
            filteredExoplanets (store_of (searchExoplanets toLowerCase s))) \<and>
         (is_ascii (searchInput_value s) \<and> list_all ascii_planet xs \<longrightarrow>
            filteredExoplanets (store_of (searchExoplanets toLowerCase s)) =
              Some (filter (ascii_search_selects (searchInput_value s)) xs)) \<and>
         filteredExoplanets (searched_store toLowerCase) = Some [named_planet ''Kepler-1b'']"
proof -
  from assms(1) have empty: "toLowerCase [] = []"
    by (rule lowers_ascii_empty)
  have selected: "filteredExoplanets (store_of (searchExoplanets toLowerCase s)) =
      Some (filter (search_selects toLowerCase (searchInput_value s)) xs)"
    using empty assms(2) by (rule searchExoplanets_selected)
  have in_order: "subseq (filter (search_selects toLowerCase (searchInput_value s)) xs) xs"
    by (rule subseq_filter_left)
  have empty_term: "searchInput_value s = [] \<longrightarrow>
      filteredExoplanets (store_of (searchExoplanets toLowerCase s)) = Some xs"
    using empty assms(2) by (simp add: searchExoplanets_def Let_def)
  have other_term: "toLowerCase term = toLowerCase (searchInput_value s) \<longrightarrow>
      filteredExoplanets
        (store_of (searchExoplanets toLowerCase (s\<lparr>searchInput_value := term\<rparr>))) =
      filteredExoplanets (store_of (searchExoplanets toLowerCase s))"
    using searchExoplanets_defined(1) [of "s\<lparr>searchInput_value := term\<rparr>" xs toLowerCase]
      searchExoplanets_defined(1) [OF assms(2), of toLowerCase] assms(2)
    by simp
  have ascii: "is_ascii (searchInput_value s) \<and> list_all ascii_planet xs \<longrightarrow>
      filteredExoplanets (store_of (searchExoplanets toLowerCase s)) =
        Some (filter (ascii_search_selects (searchInput_value s)) xs)"
  proof (intro impI, elim conjE)
    assume t: "is_ascii (searchInput_value s)" and ps: "list_all ascii_planet xs"
    have "filter (search_selects toLowerCase (searchInput_value s)) xs =
          filter (ascii_search_selects (searchInput_value s)) xs"
      using ps t assms(1)
      by (intro filter_cong) (auto simp: list_all_iff lowers_ascii_selects)
    with selected
    show "filteredExoplanets (store_of (searchExoplanets toLowerCase s)) =
        Some (filter (ascii_search_selects (searchInput_value s)) xs)"
      by simp
  qed
  from selected in_order empty_term searchExoplanets_defined(2,3) [OF assms(2)] other_term
    ascii searched_store_filtered [OF assms(1)]
  show ?thesis
    by simp
qed

theorem searchExoplanets_selects_matching_witness:
  "lowers_ascii ascii_toLowerCase \<and>
   filter (search_selects ascii_toLowerCase ''kepler'') two_planets = [named_planet ''Kepler-1b''] \<and>
   filter (ascii_search_selects ''kepler'') two_planets = [named_planet ''Kepler-1b''] \<and>
   subseq [named_planet ''Kepler-1b''] two_planets"
proof -
  let ?s = "(initial_store [] False)
              \<lparr>allExoplanets := Some two_planets, searchInput_value := ''kepler''\<rparr>"
  have h: "lowers_ascii ascii_toLowerCase" "allExoplanets ?s = Some two_planets"
    by (simp_all add: lowers_ascii_self)
  have input: "searchInput_value ?s = ''kepler''" "is_ascii (searchInput_value ?s)"
    "list_all ascii_planet two_planets"
    by (simp_all add: ascii_samples two_planets_def ascii_planet_def named_planet_def)
  have found: "filteredExoplanets (store_of (searchExoplanets ascii_toLowerCase ?s)) =
      Some [named_planet ''Kepler-1b'']"
    using searched_store_filtered [OF h(1)] by (simp add: searched_store_def)
  note selects = searchExoplanets_selects_matching [OF h, of "''kepler''"]
  from selects have general:
    "filteredExoplanets (store_of (searchExoplanets ascii_toLowerCase ?s)) =
       Some (filter (search_selects ascii_toLowerCase (searchInput_value ?s)) two_planets)"
    by blast
  from selects input(2,3) have ascii:
    "filteredExoplanets (store_of (searchExoplanets ascii_toLowerCase ?s)) =
       Some (filter (ascii_search_selects (searchInput_value ?s)) two_planets)"
    by blast
  from general found input(1)
  have one: "filter (search_selects ascii_toLowerCase ''kepler'') two_planets =
      [named_planet ''Kepler-1b'']"
    by simp
  from ascii found input(1)
  have two: "filter (ascii_search_selects ''kepler'') two_planets = [named_planet ''Kepler-1b'']"
    by simp
  from selects one have "subseq [named_planet ''Kepler-1b''] two_planets"
    by (metis input(1))
  with h(1) one two show ?thesis
    by blast
qed

section \<open>The filtered view along a run\<close>

lemma rel_option_subseq_refl: "rel_option subseq a a"
  by (cases a) simp_all

lemma searchExoplanets_undefined:
  assumes "allExoplanets s = None"
  shows "allExoplanets (store_of (searchExoplanets toLowerCase s)) = None"
    and "filteredExoplanets s = None \<Longrightarrow>
           filteredExoplanets (store_of (searchExoplanets toLowerCase s)) = None"
  using assms by (simp_all add: searchExoplanets_def Let_def displayExoplanets_def)

lemma resetFilters_lists:
  "allExoplanets (store_of (resetFilters s)) = allExoplanets s"
  "filteredExoplanets (store_of (resetFilters s)) = allExoplanets s"
  by (simp_all add: resetFilters_def Let_def)

lemma settled_later_page_view:
  assumes "page \<noteq> 1"
    and "rel_option subseq (filteredExoplanets s) (allExoplanets s)"
  shows "rel_option subseq (filteredExoplanets (loadExoplanets_settled page (Inr d) s))
           (allExoplanets (loadExoplanets_settled page (Inr d) s))"
  using assms
  by (cases "allExoplanets s"; cases "filteredExoplanets s"; cases "exoplanets d")
    (simp_all add: loadExoplanets_settled_def try_later_page loadExoplanets_catch_def)

lemma settled_keeps_view:
  assumes "rel_option subseq (filteredExoplanets s) (allExoplanets s)"
  shows "rel_option subseq (filteredExoplanets (loadExoplanets_settled page response s))
           (allExoplanets (loadExoplanets_settled page response s))"
proof (cases response)
  case (Inl err)
  with assms show ?thesis
    by (simp add: settled_fetch_failed)
next
  case (Inr d)
  show ?thesis
  proof (cases "page = 1")
    case True
    have "rel_option subseq (filteredExoplanets (loadExoplanets_settled 1 (Inr d) s))
            (allExoplanets (loadExoplanets_settled 1 (Inr d) s))"
      unfolding settled_first_page_lists by (rule rel_option_subseq_refl)
    with True Inr show ?thesis
      by simp
  next
    case False
    with assms Inr show ?thesis
      by (simp add: settled_later_page_view)
  qed
qed

lemma searchExoplanets_keeps_view:
  assumes "rel_option subseq (filteredExoplanets s) (allExoplanets s)"
  shows "rel_option subseq (filteredExoplanets (store_of (searchExoplanets toLowerCase s)))
           (allExoplanets (store_of (searchExoplanets toLowerCase s)))"
proof (cases "allExoplanets s")
  case None
  with assms have "filteredExoplanets s = None"
    by (cases "filteredExoplanets s") simp_all
  with None show ?thesis
    by (simp add: searchExoplanets_undefined)
next
  case (Some xs)
  then show ?thesis
    by (simp add: searchExoplanets_defined subseq_filter_left)
qed

lemma applyFilters_keeps_view:
  assumes "rel_option subseq (filteredExoplanets s) (allExoplanets s)"
  shows "rel_option subseq (filteredExoplanets (store_of (applyFilters s)))
           (allExoplanets (store_of (applyFilters s)))"
proof (cases "allExoplanets s")
  case None
  with assms show ?thesis
    by (simp add: applyFilters_undefined)
next
  case (Some xs)
  then show ?thesis
    by (simp add: applyFilters_filtered subseq_filter_left)
qed

lemma step_keeps_view:
  assumes "rel_option subseq (filteredExoplanets s) (allExoplanets s)"
  shows "rel_option subseq (filteredExoplanets (step toLowerCase e s))
           (allExoplanets (step toLowerCase e s))"
proof (cases e)
  case (PageSettled page response)
  with assms show ?thesis
    by (simp add: settled_keeps_view)
next
  case SearchRun
  with assms show ?thesis
    by (simp add: searchExoplanets_keeps_view)
next
  case FiltersApplied
  with assms show ?thesis
    by (simp add: applyFilters_keeps_view)
next
  case FiltersReset
  then show ?thesis
    by (simp add: resetFilters_lists rel_option_subseq_refl)
qed (use assms in simp_all)

lemma run_keeps_view:
  "rel_option subseq (filteredExoplanets s) (allExoplanets s) \<Longrightarrow>
   rel_option subseq (filteredExoplanets (run toLowerCase evs s))
     (allExoplanets (run toLowerCase evs s))"
  unfolding run_def
  by (induction evs arbitrary: s) (simp_all add: step_keeps_view)

lemma settled_keeps_both_lists:
  assumes "both_lists s" and "carries_list (PageSettled page response)"
  shows "both_lists (loadExoplanets_settled page response s)"
proof (cases response)
  case (Inl err)
  with assms show ?thesis
    by (simp add: settled_fetch_failed both_lists_def)
next
  case (Inr d)
  with assms obtain xs ys ds where lists: "allExoplanets s = Some xs"
    "filteredExoplanets s = Some ys" "exoplanets d = Some ds"
    by (auto simp: both_lists_def)
  show ?thesis
  proof (cases "page = 1")
    case True
    have "both_lists (loadExoplanets_settled 1 (Inr d) s)"
      unfolding both_lists_def settled_first_page_lists using lists by simp
    with True Inr show ?thesis
      by simp
  next
    case False
    with Inr lists show ?thesis
      by (simp add: both_lists_def settled_later_page)
  qed
qed

lemma step_keeps_both_lists:
  assumes "both_lists s" and "carries_list e"
  shows "both_lists (step toLowerCase e s)"
proof (cases e)
  case (PageSettled page response)
  with assms show ?thesis
    by (simp add: settled_keeps_both_lists)
next
  case SearchRun
  with assms show ?thesis
    by (auto simp: both_lists_def searchExoplanets_defined)
next
  case FiltersApplied
  with assms show ?thesis
    by (auto simp: both_lists_def applyFilters_filtered)
next
  case FiltersReset
  with assms show ?thesis
    by (simp add: both_lists_def resetFilters_lists)
qed (use assms in \<open>simp_all add: both_lists_def\<close>)

lemma run_keeps_both_lists:
  "both_lists s \<Longrightarrow> list_all carries_list evs \<Longrightarrow> both_lists (run toLowerCase evs s)"
  unfolding run_def
  by (induction evs arbitrary: s) (simp_all add: step_keeps_both_lists)

lemma searchExoplanets_view:
  assumes "rel_option subseq (filteredExoplanets s) (allExoplanets s)"
  shows "filteredExoplanets (store_of (searchExoplanets toLowerCase s)) =
           map_option (filter (matchesSearch toLowerCase (toLowerCase (searchInput_value s))))
             (allExoplanets (store_of (searchExoplanets toLowerCase s)))"
proof (cases "allExoplanets s")
  case None
  with assms have "filteredExoplanets s = None"
    by (cases "filteredExoplanets s") simp_all
  with None show ?thesis
    by (simp add: searchExoplanets_undefined)
next
  case (Some xs)
  then show ?thesis
    by (simp add: searchExoplanets_defined)
qed

lemma applyFilters_view:
  assumes "rel_option subseq (filteredExoplanets s) (allExoplanets s)"
  shows "filteredExoplanets (store_of (applyFilters s)) =
           map_option (filter (matchesFilters (discoveryMethodFilter_value s)
                                 (habitableFilter_value s)))
             (allExoplanets (store_of (applyFilters s)))"
proof (cases "allExoplanets s")
  case None
  with assms have "filteredExoplanets s = None"
    by (cases "filteredExoplanets s") simp_all
  with None show ?thesis
    by (simp add: applyFilters_undefined)
next
  case (Some xs)
  then show ?thesis
    by (simp add: applyFilters_filtered)
qed

lemma store_after_load_more_lists:
  "allExoplanets store_after_load_more =
     Some [named_planet ''Kepler-1b'', named_planet ''TRAPPIST-1e'', named_planet ''TRAPPIST-1f'']"
  "filteredExoplanets store_after_load_more =
     Some [named_planet ''Kepler-1b'', named_planet ''TRAPPIST-1f'']"
  "searchInput_value store_after_load_more = ''kepler''"
  "currentPage store_after_load_more = 2"
  by (simp_all add: store_after_load_more_def run_def search_then_load_more_def
      loadExoplanets_settled_def loadExoplanets_request_def loadExoplanets_try_def
      loadExoplanets_finish_def searchExoplanets_def Let_def first_page_def second_page_def two_planets_def
      named_planet_def matchesSearch_def ascii_samples displayExoplanets_def
      appendExoplanets_def initial_store_def)

lemma store_after_filter_and_load_lists:
  "allExoplanets store_after_filter_and_load =
     Some [planet_of_radius 1, planet_of_radius 3, planet_of_radius 5]"
  "filteredExoplanets store_after_filter_and_load =
     Some [planet_of_radius 1, planet_of_radius 5]"
  "habitableFilter_value store_after_filter_and_load = ''habitable''"
  "discoveryMethodFilter_value store_after_filter_and_load = []"
  by (simp_all add: store_after_filter_and_load_def filtered_store_def
      loadMoreExoplanets_def loadExoplanets_def
      loadExoplanets_settled_def loadExoplanets_request_def loadExoplanets_try_def
      loadExoplanets_finish_def applyFilters_def Let_def matchesFilters_def planet_of_radius_def displayExoplanets_def
      appendExoplanets_def initial_store_def)

text \<open>The session with the search runs alike under every \<open>toLowerCase\<close>: its names are ASCII.\<close>

lemma search_session_any_toLowerCase:
  assumes "lowers_ascii toLowerCase"
  shows "run toLowerCase search_then_load_more (initial_store [] False) = store_after_load_more"
  using lower_samples [OF assms]
  by (simp add: store_after_load_more_def run_def search_then_load_more_def
      loadExoplanets_settled_def loadExoplanets_request_def loadExoplanets_try_def
      loadExoplanets_finish_def searchExoplanets_def Let_def first_page_def second_page_def
      two_planets_def named_planet_def matchesSearch_def ascii_samples displayExoplanets_def
      appendExoplanets_def initial_store_def)

text \<open>
  C1, as the code has it. Along every run from the initial store, \<open>filteredExoplanets\<close>
  is a subsequence of \<open>allExoplanets\<close> (both hold \<open>undefined\<close> after a page-1 body
  without a list, and both hold lists as long as every body carries one). It is the
  selection of a predicate from \<open>allExoplanets\<close> right after the handler that applies one:
  the search predicate after \<open>searchExoplanets\<close>, the filter predicate after
  \<open>applyFilters\<close>; it is \<open>allExoplanets\<close> itself after \<open>resetFilters\<close> and after a load of
  page 1. A successful load of any other page appends the fetched page to both lists as
  it is, whatever the search box and the filter selections hold.
\<close>

theorem filtered_is_subsequence_of_all:
  assumes "s = run toLowerCase evs (initial_store grid0 btn0)"
  shows "rel_option subseq (filteredExoplanets s) (allExoplanets s) \<and>
         (list_all carries_list evs \<longrightarrow>
            (\<exists>xs ys. allExoplanets s = Some xs \<and> filteredExoplanets s = Some ys \<and>
                     subseq ys xs)) \<and>
         filteredExoplanets (store_of (searchExoplanets toLowerCase s)) =
           map_option (filter (matchesSearch toLowerCase (toLowerCase (searchInput_value s))))
             (allExoplanets (store_of (searchExoplanets toLowerCase s))) \<and>
         filteredExoplanets (store_of (applyFilters s)) =
           map_option (filter (matchesFilters (discoveryMethodFilter_value s)
                                 (habitableFilter_value s)))
             (allExoplanets (store_of (applyFilters s))) \<and>
         filteredExoplanets (store_of (resetFilters s)) =
           allExoplanets (store_of (resetFilters s)) \<and>
         filteredExoplanets (loadExoplanets_settled 1 (Inr d) s) =
           allExoplanets (loadExoplanets_settled 1 (Inr d) s) \<and>
         (page \<noteq> 1 \<and> allExoplanets s = Some xs \<and> filteredExoplanets s = Some ys \<and>
          exoplanets d = Some ds \<longrightarrow>
            filteredExoplanets (loadExoplanets_settled page (Inr d) s) = Some (ys @ ds) \<and>
            allExoplanets (loadExoplanets_settled page (Inr d) s) = Some (xs @ ds))"
proof -
  have start: "rel_option subseq (filteredExoplanets (initial_store grid0 btn0))
          (allExoplanets (initial_store grid0 btn0))"
    "both_lists (initial_store grid0 btn0)"
    by (simp_all add: initial_store_def both_lists_def)
  from start(1) have invariant: "rel_option subseq (filteredExoplanets s) (allExoplanets s)"
    unfolding assms by (rule run_keeps_view)
  have lists: "list_all carries_list evs \<longrightarrow>
      (\<exists>xs ys. allExoplanets s = Some xs \<and> filteredExoplanets s = Some ys \<and> subseq ys xs)"
  proof
    assume "list_all carries_list evs"
    with start(2) have "both_lists s"
      unfolding assms by (rule run_keeps_both_lists)
    then obtain xs ys where "allExoplanets s = Some xs" "filteredExoplanets s = Some ys"
      by (auto simp: both_lists_def)
    with invariant
    show "\<exists>xs ys. allExoplanets s = Some xs \<and> filteredExoplanets s = Some ys \<and> subseq ys xs"
      by simp
  qed
  note search = searchExoplanets_view [OF invariant, of toLowerCase]
  note filters = applyFilters_view [OF invariant]
  have reset: "filteredExoplanets (store_of (resetFilters s)) =
      allExoplanets (store_of (resetFilters s))"
    by (simp add: resetFilters_lists)
  have first: "filteredExoplanets (loadExoplanets_settled 1 (Inr d) s) =
      allExoplanets (loadExoplanets_settled 1 (Inr d) s)"
    unfolding settled_first_page_lists ..
  have later: "page \<noteq> 1 \<and> allExoplanets s = Some xs \<and> filteredExoplanets s = Some ys \<and>
      exoplanets d = Some ds \<longrightarrow>
      filteredExoplanets (loadExoplanets_settled page (Inr d) s) = Some (ys @ ds) \<and>
      allExoplanets (loadExoplanets_settled page (Inr d) s) = Some (xs @ ds)"
    by (simp add: settled_later_page)
  from invariant lists search filters reset first later show ?thesis
    by blast
qed

theorem filtered_is_subsequence_of_all_witness:
  "store_after_load_more =
     run ascii_toLowerCase search_then_load_more (initial_store [] False) \<and>
   list_all carries_list search_then_load_more \<and>
   rel_option subseq (filteredExoplanets store_after_load_more)
     (allExoplanets store_after_load_more) \<and>
   (2::nat) \<noteq> 1 \<and>
   filteredExoplanets (loadExoplanets_settled 2 (Inr second_page) store_after_load_more) =
     Some ([named_planet ''Kepler-1b'', named_planet ''TRAPPIST-1f''] @
           [named_planet ''TRAPPIST-1f''])"
proof -
  have h: "store_after_load_more =
      run ascii_toLowerCase search_then_load_more (initial_store [] False)"
    by (simp add: store_after_load_more_def)
  have bodies: "list_all carries_list search_then_load_more"
    by (simp add: search_then_load_more_def first_page_def second_page_def)
  have page: "exoplanets second_page = Some [named_planet ''TRAPPIST-1f'']"
    by (simp add: second_page_def)
  show ?thesis
    using h bodies page store_after_load_more_lists(1,2)
      filtered_is_subsequence_of_all
        [OF h, of second_page 2
           "[named_planet ''Kepler-1b'', named_planet ''TRAPPIST-1e'', named_planet ''TRAPPIST-1f'']"
           "[named_planet ''Kepler-1b'', named_planet ''TRAPPIST-1f'']"
           "[named_planet ''TRAPPIST-1f'']"]
    by simp
qed

text \<open>
  The claim as worded fails once a page is loaded while a search term or a filter is
  active. After the search for \<open>kepler\<close> and the load of one more page, the search box
  still holds \<open>kepler\<close>, \<open>filteredExoplanets\<close> holds \<open>TRAPPIST-1f\<close>, which the search
  predicate rejects, and it is neither the predicate's selection from \<open>allExoplanets\<close> nor
  \<open>allExoplanets\<close> itself. Likewise after the selection \<open>habitable\<close> and the load of one
  more page, \<open>filteredExoplanets\<close> holds a planet of radius 5; that session calls no
  \<open>toLowerCase\<close>. (The names of the first session are ASCII, where \<open>toLowerCase\<close> is
  \<open>ascii_toLowerCase\<close>: see \<open>search_session_any_toLowerCase\<close>.)
\<close>

theorem appended_page_bypasses_search_counterexample:
  "searchInput_value store_after_load_more = ''kepler'' \<and>
   \<not> matchesSearch ascii_toLowerCase (ascii_toLowerCase ''kepler'') (named_planet ''TRAPPIST-1f'') \<and>
   filteredExoplanets store_after_load_more =
     Some [named_planet ''Kepler-1b'', named_planet ''TRAPPIST-1f''] \<and>
   filteredExoplanets store_after_load_more \<noteq>
     map_option
       (filter (matchesSearch ascii_toLowerCase
                  (ascii_toLowerCase (searchInput_value store_after_load_more))))
       (allExoplanets store_after_load_more) \<and>
   filteredExoplanets store_after_load_more \<noteq> allExoplanets store_after_load_more \<and>
   habitableFilter_value store_after_filter_and_load = ''habitable'' \<and>
   \<not> matchesFilters [] ''habitable'' (planet_of_radius 5) \<and>
   filteredExoplanets store_after_filter_and_load =
     Some [planet_of_radius 1, planet_of_radius 5] \<and>
   filteredExoplanets store_after_filter_and_load \<noteq>
     map_option
       (filter (matchesFilters (discoveryMethodFilter_value store_after_filter_and_load)
                  (habitableFilter_value store_after_filter_and_load)))
       (allExoplanets store_after_filter_and_load) \<and>
   filteredExoplanets store_after_filter_and_load \<noteq> allExoplanets store_after_filter_and_load"
  by (simp add: store_after_load_more_lists store_after_filter_and_load_lists ascii_samples
      matchesSearch_def matchesFilters_def named_planet_def planet_of_radius_def)

section \<open>The prediction panel\<close>



lemma round_half_even_error: "\<bar>of_int (round_half_even x) - x\<bar> \<le> 1 / 2"
proof -
  have "of_int \<lfloor>x\<rfloor> \<le> x" "x < of_int \<lfloor>x\<rfloor> + 1"
    by linarith+
  then show ?thesis
    by (auto simp: round_half_even_def Let_def abs_le_iff)
qed




text \<open>
  The rounded value lies within half a unit in the last place of the exact one, and a tie
  goes to the even significand.
\<close>

lemma round_double_error:
  assumes "round_double x = Finite v"
  shows "\<bar>v - x\<bar> \<le> 2 powi (max (floor_log2 \<bar>x\<bar>) (- 1022) - 53)"
proof (cases "x = 0")
  case True
  with assms show ?thesis
    by (simp add: round_double_def)
next
  case False
  define ulp :: rat where "ulp = 2 powi (max (floor_log2 \<bar>x\<bar>) (- 1022) - 52)"
  define r where "r = of_int (round_half_even (\<bar>x\<bar> / ulp)) * ulp"
  have ulp_pos: "0 < ulp"
    by (simp add: ulp_def zero_less_power_int)
  have v: "v = (if x < 0 then - r else r)"
    using assms False
    by (simp add: round_double_def Let_def ulp_def r_def split: if_splits)
  have "r - \<bar>x\<bar> = (of_int (round_half_even (\<bar>x\<bar> / ulp)) - \<bar>x\<bar> / ulp) * ulp"
    using ulp_pos by (simp add: r_def left_diff_distrib)
  then have "\<bar>r - \<bar>x\<bar>\<bar> = \<bar>of_int (round_half_even (\<bar>x\<bar> / ulp)) - \<bar>x\<bar> / ulp\<bar> * ulp"
    using ulp_pos by (simp add: abs_mult)
  also have "\<dots> \<le> 1 / 2 * ulp"
    using ulp_pos round_half_even_error by (intro mult_right_mono) simp_all
  also have "1 / 2 * ulp = 2 powi (max (floor_log2 \<bar>x\<bar>) (- 1022) - 53)"
    by (simp add: ulp_def power_int_diff)
  finally have "\<bar>r - \<bar>x\<bar>\<bar> \<le> 2 powi (max (floor_log2 \<bar>x\<bar>) (- 1022) - 53)" .
  moreover have "\<bar>v - x\<bar> = \<bar>r - \<bar>x\<bar>\<bar>"
    by (auto simp: v abs_if)
  ultimately show ?thesis
    by simp
qed

lemma round_double_samples:
  "round_double (62 / 100) = Finite (5584463537939415 / 9007199254740992)"
  "round_double 9007199254740993 = Finite 9007199254740992"
  "round_double 9007199254740995 = Finite 9007199254740996"
  "round_double (- 3 / 4) = Finite (- 3 / 4)"
  by code_simp+


















end
